theory Spec2Isabelle
  imports Complex_Main
begin

section \<open>Python strings and integers\<close>

text \<open>
  The render-queue engine of \<^verbatim>\<open>BatchRender.py\<close> lives in the nested functions of
  \<^verbatim>\<open>BatchRenderDialog.start_batch_render\<close>. Text is modelled as \<^typ>\<open>string\<close> over
  ASCII, Python's unbounded integers as \<^typ>\<open>int\<close>. An exception is a value of
  \<open>error\<close>; the payload is the message the source builds (for the exceptions of
  built-ins, a fixed text).
\<close>

datatype error =
    ValueError string
  | IndexError string
  | UnboundLocalError string
  | AttributeError string
  | OSError string
  | ReError string

definition is_ValueError :: "error \<Rightarrow> bool" where
  "is_ValueError e = (case e of ValueError _ \<Rightarrow> True | _ \<Rightarrow> False)"

definition error_str :: "error \<Rightarrow> string" where
  "error_str e = (case e of ValueError m \<Rightarrow> m | IndexError m \<Rightarrow> m
     | UnboundLocalError m \<Rightarrow> m | AttributeError m \<Rightarrow> m | OSError m \<Rightarrow> m
     | ReError m \<Rightarrow> m)"

definition digit_char :: "nat \<Rightarrow> char" where
  "digit_char d = ''0123456789'' ! d"

fun str_nat :: "nat \<Rightarrow> string" where
  "str_nat n = (if n < 10 then [digit_char n] else str_nat (n div 10) @ [digit_char (n mod 10)])"

declare str_nat.simps [simp del]

text \<open>\<^verbatim>\<open>str(n)\<close> of a Python integer.\<close>

definition str_int :: "int \<Rightarrow> string" where
  "str_int i = (if i < 0 then CHR ''-'' # str_nat (nat (- i)) else str_nat (nat i))"

text \<open>The format specification \<^verbatim>\<open>:04d\<close>: sign-aware zero padding to width four.\<close>

definition zfill :: "nat \<Rightarrow> string \<Rightarrow> string" where
  "zfill w s = replicate (w - length s) CHR ''0'' @ s"

definition fmt_04d :: "int \<Rightarrow> string" where
  "fmt_04d i = (if i < 0 then CHR ''-'' # zfill 3 (str_nat (nat (- i))) else zfill 4 (str_nat (nat i)))"

definition is_digit :: "char \<Rightarrow> bool" where
  "is_digit c = (c \<in> set ''0123456789'')"

definition digit_val :: "char \<Rightarrow> nat" where
  "digit_val c = of_char c - 48"

text \<open>Whitespace as \<^verbatim>\<open>str.strip()\<close> sees it, on code points below 256.\<close>

definition is_space :: "char \<Rightarrow> bool" where
  "is_space c = (let n = (of_char c :: nat) in (9 \<le> n \<and> n \<le> 13) \<or> (28 \<le> n \<and> n \<le> 32) \<or> n = 133 \<or> n = 160)"

definition lstrip :: "string \<Rightarrow> string" where
  "lstrip s = dropWhile is_space s"

definition strip :: "string \<Rightarrow> string" where
  "strip s = rev (dropWhile is_space (rev (dropWhile is_space s)))"

text \<open>
  The digits of an integer literal, single underscores allowed between digits;
  \<open>None\<close> where \<^verbatim>\<open>int()\<close> raises.
\<close>

fun parse_digits :: "nat \<Rightarrow> string \<Rightarrow> nat option" where
  "parse_digits acc [] = Some acc"
| "parse_digits acc (c # cs) =
     (if c = CHR ''_'' then
        (case cs of [] \<Rightarrow> None
         | d # _ \<Rightarrow> if is_digit d then parse_digits acc cs else None)
      else if is_digit c then parse_digits (10 * acc + digit_val c) cs
      else None)"

definition parse_unsigned :: "string \<Rightarrow> nat option" where
  "parse_unsigned s = (case s of [] \<Rightarrow> None
     | c # _ \<Rightarrow> if is_digit c then parse_digits 0 s else None)"

text \<open>
  \<^verbatim>\<open>int(s)\<close> on a string: surrounding whitespace, an optional sign, decimal digits.
  The whitespace \<^verbatim>\<open>int\<close> skips is narrower than that of \<^verbatim>\<open>str.strip()\<close>: the separators
  0x1C to 0x1F are not skipped, and \<^verbatim>\<open>int\<close> raises on them.
\<close>

definition is_int_space :: "char \<Rightarrow> bool" where
  "is_int_space c = (let n = (of_char c :: nat) in (9 \<le> n \<and> n \<le> 13) \<or> n = 32 \<or> n = 133 \<or> n = 160)"

definition int_strip :: "string \<Rightarrow> string" where
  "int_strip s = rev (dropWhile is_int_space (rev (dropWhile is_int_space s)))"

definition py_int :: "string \<Rightarrow> error + int" where
  "py_int s =
     (let t = int_strip s;
          r = (case t of
                 [] \<Rightarrow> None
               | c # cs \<Rightarrow>
                   if c = CHR ''-'' then map_option (\<lambda>n. - int n) (parse_unsigned cs)
                   else if c = CHR ''+'' then map_option int (parse_unsigned cs)
                   else map_option int (parse_unsigned t))
      in case r of None \<Rightarrow> Inl (ValueError (''invalid literal for int() with base 10: '' @ [CHR 0x27] @ s @ [CHR 0x27]))
         | Some i \<Rightarrow> Inr i)"

text \<open>\<^verbatim>\<open>s.split(sep)\<close> for a separator of one character: never an empty list.\<close>

fun split_chr :: "char \<Rightarrow> string \<Rightarrow> string list" where
  "split_chr sep [] = [[]]"
| "split_chr sep (c # cs) =
     (if c = sep then [] # split_chr sep cs
      else (case split_chr sep cs of [] \<Rightarrow> [[c]] | p # ps \<Rightarrow> (c # p) # ps))"

text \<open>\<^verbatim>\<open>sep.join(parts)\<close>.\<close>

fun join_str :: "string \<Rightarrow> string list \<Rightarrow> string" where
  "join_str sep [] = []"
| "join_str sep [p] = p"
| "join_str sep (p # q # ps) = p @ sep @ join_str sep (q # ps)"

text \<open>\<^verbatim>\<open>needle in hay\<close> for strings.\<close>

fun contains :: "string \<Rightarrow> string \<Rightarrow> bool" where
  "contains needle [] = (needle = [])"
| "contains needle (c # cs) = (take (length needle) (c # cs) = needle \<or> contains needle cs)"

text \<open>
  \<^verbatim>\<open>s.replace(old, new)\<close>: every occurrence, left to right, without overlap. With an
  empty \<open>old\<close> Python puts \<open>new\<close> before every character and at the end.
\<close>

fun replace_from :: "string \<Rightarrow> string \<Rightarrow> nat \<Rightarrow> string \<Rightarrow> string" where
  "replace_from old new skip [] = []"
| "replace_from old new skip (c # cs) =
     (if 0 < skip then replace_from old new (skip - 1) cs
      else if take (length old) (c # cs) = old then new @ replace_from old new (length old - 1) cs
      else c # replace_from old new 0 cs)"

definition str_replace :: "string \<Rightarrow> string \<Rightarrow> string \<Rightarrow> string" where
  "str_replace old new s =
     (if old = [] then new @ concat (map (\<lambda>c. c # new) s) else replace_from old new 0 s)"

definition lower_chr :: "char \<Rightarrow> char" where
  "lower_chr c = (let n = (of_char c :: nat) in if 65 \<le> n \<and> n \<le> 90 then char_of (n + 32) else c)"

definition lower :: "string \<Rightarrow> string" where
  "lower s = map lower_chr s"

section \<open>Frame-range parser\<close>

text \<open>
  The host's render-time settings that \<^verbatim>\<open>get_frame_range\<close> reads for the
  \<^verbatim>\<open>"Default"\<close> field value: \<^verbatim>\<open>rt.rendTimeType\<close> (1 to 4) and the frames it selects.
\<close>

datatype rend_time_type = SingleFrame | ActiveTimeSegment | FrameRangeType | PickedFrames

record time_settings =
  rendTimeType :: rend_time_type
  currentTime_frame :: int
  animationRange_start :: int
  animationRange_end :: int
  rendStart :: int
  rendEnd :: int
  rendNThFrame :: int
  rendPickupFrames :: string

text \<open>
  What \<^verbatim>\<open>get_frame_range\<close> returns is a Python list or a \<^verbatim>\<open>range\<close> object;
  \<^verbatim>\<open>get_frame_range_display\<close> tells them apart with \<^verbatim>\<open>isinstance\<close>.
\<close>

datatype frame_seq = PyList "int list" | PyRange int int int

definition range_len :: "int \<Rightarrow> int \<Rightarrow> int \<Rightarrow> nat" where
  "range_len start stop step =
     (if 0 < step \<and> start < stop then nat ((stop - start + step - 1) div step)
      else if step < 0 \<and> stop < start then nat ((start - stop - step - 1) div (- step))
      else 0)"

definition range_list :: "int \<Rightarrow> int \<Rightarrow> int \<Rightarrow> int list" where
  "range_list start stop step = map (\<lambda>k. start + int k * step) [0 ..< range_len start stop step]"

text \<open>\<^verbatim>\<open>list(frame_range)\<close>, the frames the executor iterates over.\<close>

definition frames_of :: "frame_seq \<Rightarrow> int list" where
  "frames_of fr = (case fr of PyList xs \<Rightarrow> xs | PyRange a b s \<Rightarrow> range_list a b s)"

text \<open>\<^verbatim>\<open>range(a, b, s)\<close> raises \<^verbatim>\<open>ValueError\<close> for a zero step.\<close>

definition py_range3 :: "int \<Rightarrow> int \<Rightarrow> int \<Rightarrow> error + frame_seq" where
  "py_range3 a b s = (if s = 0 then Inl (ValueError ''range() arg 3 must not be zero'') else Inr (PyRange a b s))"

fun map_int :: "string list \<Rightarrow> error + int list" where
  "map_int [] = Inr []"
| "map_int (p # ps) =
     (case py_int p of Inl e \<Rightarrow> Inl e
      | Inr i \<Rightarrow> (case map_int ps of Inl e \<Rightarrow> Inl e | Inr is \<Rightarrow> Inr (i # is)))"

fun parse_number_parts :: "string list \<Rightarrow> error + int list" where
  "parse_number_parts [] = Inr []"
| "parse_number_parts (part # parts) =
     (case (if CHR ''-'' \<in> set part then
              (case map_int (split_chr CHR ''-'' part) of
                 Inl e \<Rightarrow> Inl e
               | Inr [start, end] \<Rightarrow> Inr (range_list start (end + 1) 1)
               | Inr _ \<Rightarrow> Inl (ValueError ''too many values to unpack (expected 2)''))
            else (case py_int (strip part) of Inl e \<Rightarrow> Inl e | Inr i \<Rightarrow> Inr [i]))
      of Inl e \<Rightarrow> Inl e
       | Inr xs \<Rightarrow> (case parse_number_parts parts of Inl e \<Rightarrow> Inl e | Inr ys \<Rightarrow> Inr (xs @ ys)))"

definition parse_number_string :: "string \<Rightarrow> error + int list" where
  "parse_number_string number_string = parse_number_parts (split_chr CHR '','' number_string)"

definition get_frame_range :: "time_settings \<Rightarrow> string \<Rightarrow> error + frame_seq" where
  "get_frame_range rt frame_range =
     (if frame_range = ''Default'' then
        (case rendTimeType rt of
           SingleFrame \<Rightarrow> Inr (PyList [currentTime_frame rt])
         | ActiveTimeSegment \<Rightarrow> Inr (PyRange (animationRange_start rt) (animationRange_end rt + 1) 1)
         | FrameRangeType \<Rightarrow> py_range3 (rendStart rt) (rendEnd rt + 1) (rendNThFrame rt)
         | PickedFrames \<Rightarrow>
             (case parse_number_string (rendPickupFrames rt) of
                Inl e \<Rightarrow> Inl e | Inr xs \<Rightarrow> Inr (PyList xs)))
      else
        (let parts = split_chr CHR '':'' frame_range in
         if hd parts = last parts then
           (case py_int (hd parts) of Inl e \<Rightarrow> Inl e | Inr i \<Rightarrow> Inr (PyList [i]))
         else
           (case map_int parts of
              Inl e \<Rightarrow> Inl e
            | Inr is \<Rightarrow> Inr (PyRange (hd is) (last is + 1) 1))))"

definition get_frame_range_display :: "frame_seq \<Rightarrow> string" where
  "get_frame_range_display frame_range =
     (case frame_range of
        PyRange start stop step \<Rightarrow>
          (if step = 1 then str_int start @ ''-'' @ str_int stop
           else join_str '', '' (map str_int (range_list start stop step)))
      | PyList xs \<Rightarrow> join_str '', '' (map str_int xs))"

section \<open>Template resolver\<close>

text \<open>
  \<^verbatim>\<open>re.sub(replace, replace_with, render_name, flags=re.IGNORECASE)\<close>. Each of the seven
  patterns (\<^verbatim>\<open>{Camera}\<close>, ...) is a literal for the regex engine: an opening brace that
  starts no repeat count stands for itself. The replacement is a template: Python
  expands its backslash escapes before the search, the pattern has no group but
  the whole match, and a bad escape raises \<^verbatim>\<open>re.error\<close>.
\<close>

datatype piece = Lit char | Group0

definition backslash :: char where
  "backslash = CHR 0x5C"

definition is_octal :: "char \<Rightarrow> bool" where
  "is_octal c = (c \<in> set ''01234567'')"

definition is_ascii_letter :: "char \<Rightarrow> bool" where
  "is_ascii_letter c = (let n = (of_char c :: nat) in (65 \<le> n \<and> n \<le> 90) \<or> (97 \<le> n \<and> n \<le> 122))"

definition control_escape :: "char \<Rightarrow> char option" where
  "control_escape c =
     (if c = CHR ''a'' then Some (CHR 0x07) else if c = CHR ''b'' then Some (CHR 0x08)
      else if c = CHR ''f'' then Some (CHR 0x0C) else if c = CHR ''n'' then Some (CHR 0x0A)
      else if c = CHR ''r'' then Some (CHR 0x0D) else if c = CHR ''t'' then Some (CHR 0x09)
      else if c = CHR ''v'' then Some (CHR 0x0B) else if c = backslash then Some backslash
      else None)"

definition octal_value :: "string \<Rightarrow> nat" where
  "octal_value ds = foldl (\<lambda>acc d. 8 * acc + digit_val d) 0 ds"

text \<open>
  \<open>parse_template\<close> follows \<^verbatim>\<open>re._parser.parse_template\<close> for a pattern without
  groups; the fuel is the length of the template and is never used up.
\<close>

fun parse_template :: "nat \<Rightarrow> string \<Rightarrow> error + piece list" where
  "parse_template 0 s = (if s = [] then Inr [] else Inl (ReError ''template''))"
| "parse_template (Suc fuel) [] = Inr []"
| "parse_template (Suc fuel) (c # cs) =
     (let cont = (\<lambda>ps rest. case parse_template fuel rest of Inl e \<Rightarrow> Inl e | Inr qs \<Rightarrow> Inr (ps @ qs)) in
      if c \<noteq> backslash then cont [Lit c] cs
      else (case cs of
          [] \<Rightarrow> Inl (ReError ''bad escape (end of pattern)'')
        | d # ds \<Rightarrow>
            if d = CHR ''g'' then
              (case ds of
                 [] \<Rightarrow> Inl (ReError ''missing <'')
               | l # ns \<Rightarrow>
                   if l \<noteq> CHR ''<'' then Inl (ReError ''missing <'')
                   else let name = takeWhile (\<lambda>x. x \<noteq> CHR ''>'') ns; rest = dropWhile (\<lambda>x. x \<noteq> CHR ''>'') ns in
                     if rest = [] then Inl (ReError ''missing >, unterminated name'')
                     else if name \<noteq> [] \<and> (\<forall>x \<in> set name. x = CHR ''0'') then cont [Group0] (tl rest)
                     else Inl (ReError ''invalid group reference''))
            else if d = CHR ''0'' then
              (let os = takeWhile is_octal (take 2 ds) in
               cont [Lit (char_of (octal_value os))] (drop (length os) ds))
            else if is_digit d then
              (case ds of
                 e # f # rest \<Rightarrow>
                   if is_octal d \<and> is_octal e \<and> is_octal f then
                     (if octal_value [d, e, f] > 255 then Inl (ReError ''octal escape value outside of range 0-0o377'')
                      else cont [Lit (char_of (octal_value [d, e, f]))] rest)
                   else Inl (ReError ''invalid group reference'')
               | _ \<Rightarrow> Inl (ReError ''invalid group reference''))
            else (case control_escape d of
                Some x \<Rightarrow> cont [Lit x] ds
              | None \<Rightarrow> if is_ascii_letter d then Inl (ReError ''bad escape'') else cont [Lit backslash, Lit d] ds)))"

definition expand :: "piece list \<Rightarrow> string \<Rightarrow> string" where
  "expand ps matched = concat (map (\<lambda>p. case p of Lit c \<Rightarrow> [c] | Group0 \<Rightarrow> matched) ps)"

text \<open>The matches of a literal pattern, ignoring case, left to right without overlap.\<close>

fun sub_from :: "string \<Rightarrow> piece list \<Rightarrow> nat \<Rightarrow> string \<Rightarrow> string" where
  "sub_from pat ps skip [] = []"
| "sub_from pat ps skip (c # cs) =
     (if 0 < skip then sub_from pat ps (skip - 1) cs
      else if lower (take (length pat) (c # cs)) = lower pat \<and> length pat \<le> length (c # cs)
        then expand ps (take (length pat) (c # cs)) @ sub_from pat ps (length pat - 1) cs
      else c # sub_from pat ps 0 cs)"

definition re_sub_ignorecase :: "string \<Rightarrow> string \<Rightarrow> string \<Rightarrow> error + string" where
  "re_sub_ignorecase pat repl s =
     (case parse_template (length repl) repl of
        Inl e \<Rightarrow> Inl e
      | Inr ps \<Rightarrow> Inr (sub_from pat ps 0 s))"

text \<open>
  The dictionary \<^verbatim>\<open>get_entry_values\<close> builds for one row of the table, with the keys
  the engine reads. \<^verbatim>\<open>Camera_Hidden\<close> is the camera's stable identity.
  \<^verbatim>\<open>Scene_State\<close> holds the cell text at first; \<^verbatim>\<open>main\<close> overwrites it with what
  \<^verbatim>\<open>get_and_set_scene_state\<close> returns, which is \<^verbatim>\<open>None\<close> for an empty cell.
  \<^verbatim>\<open>Resolution_Display\<close> is the key \<^verbatim>\<open>main\<close> adds before the name is resolved.
  \<open>Range_cell\<close> is the key \<^verbatim>\<open>Range\<close>.
\<close>

record item_values =
  Use :: bool
  Name :: string
  Camera :: string
  Camera_Hidden :: "string option"
  Output_Path :: string
  Range_cell :: string
  Resolution :: string
  Pixel_Aspect :: string
  Scene_State :: "string option"
  Render_Preset :: string
  Layer_Preset :: string
  Resolution_Display :: string

definition replace_flags :: "item_values \<Rightarrow> (string \<times> string option) list" where
  "replace_flags iv =
     [(''{Camera}'', Some (Camera iv)),
      (''{Scene State}'', Scene_State iv),
      (''{State Set}'', Scene_State iv),
      (''{Render Preset}'', Some (Render_Preset iv)),
      (''{Layer Preset}'', Some (Layer_Preset iv)),
      (''{Resolution}'', Some (Resolution_Display iv)),
      (''{Pixel Aspect}'', Some (Pixel_Aspect iv))]"

text \<open>
  The loop over \<^verbatim>\<open>replace_flags.items()\<close>: the state is the name so far and the
  \<^verbatim>\<open>blank_values\<close> flag.
\<close>

fun substitute_flags :: "(string \<times> string option) list \<Rightarrow> string \<times> bool \<Rightarrow> error + (string \<times> bool)" where
  "substitute_flags [] acc = Inr acc"
| "substitute_flags ((replace, replace_with) # flags) (render_name, blank_values) =
     (if contains (lower replace) (lower render_name) then
        (let w0 = (case replace_with of None \<Rightarrow> [] | Some w \<Rightarrow> w);
             blank = (lower w0 = ''default'' \<or> lower w0 = []);
             w = (if blank then [] else w0)
         in case re_sub_ignorecase replace w render_name of
              Inl e \<Rightarrow> Inl e
            | Inr n \<Rightarrow> substitute_flags flags (n, blank_values \<or> blank))
      else substitute_flags flags (render_name, blank_values))"

definition invalid_chars :: string where
  "invalid_chars = [backslash, CHR ''/'', CHR '':'', CHR ''*'', CHR ''?'', CHR ''<'', CHR ''>'', CHR ''|'', CHR 0x22, backslash]"

definition name_invalid :: "string \<Rightarrow> bool" where
  "name_invalid render_name =
     (render_name = [] \<or> (\<exists>c \<in> set invalid_chars. c \<in> set render_name) \<or> take 1 render_name = ''.'')"

definition newline :: string where
  "newline = [CHR 0x0A]"

definition blank_flags_message :: "string \<Rightarrow> string \<Rightarrow> string" where
  "blank_flags_message original_render_name render_name =
     ''Some of the replacement flags in the render name are blank or default. ''
     @ ''This may result in weird file names.'' @ newline @ newline
     @ ''Original render name: '' @ original_render_name @ newline
     @ ''Render name: '' @ render_name @ newline @ newline @ ''Do you want to proceed?''"

text \<open>
  The name and the flag after the substitutions, before the prompt and the
  validation: the first half of \<^verbatim>\<open>get_valid_filename\<close>.
\<close>

definition resolve_template :: "item_values \<Rightarrow> error + (string \<times> bool)" where
  "resolve_template item_values =
     (let iv = item_values\<lparr>Camera := str_replace ''_VRayPhysicalCamera'' [] (Camera item_values)\<rparr>;
          render_name = (if Name iv = ''Default'' then ''{Camera}'' else Name iv)
      in substitute_flags (replace_flags iv) (render_name, False))"

section \<open>Paths\<close>

text \<open>
  The host runs on Windows, so \<^verbatim>\<open>os.path\<close> is \<^verbatim>\<open>ntpath\<close> (as of Python 3.11, the
  interpreter of the host). Both slashes separate; a drive is a letter and a colon.
  UNC and device paths are outside this model of the library.
\<close>

definition is_sep :: "char \<Rightarrow> bool" where
  "is_sep c = (c = backslash \<or> c = CHR ''/'')"

definition splitdrive :: "string \<Rightarrow> string \<times> string" where
  "splitdrive p = (if 2 \<le> length p \<and> p ! 1 = CHR '':'' then (take 2 p, drop 2 p) else ([], p))"

definition rstrip_seps :: "string \<Rightarrow> string" where
  "rstrip_seps s = rev (dropWhile is_sep (rev s))"

text \<open>The part after the last separator, and what stands before it.\<close>

definition tail_part :: "string \<Rightarrow> string" where
  "tail_part p = rev (takeWhile (\<lambda>c. \<not> is_sep c) (rev p))"

definition head_part :: "string \<Rightarrow> string" where
  "head_part p = rev (dropWhile (\<lambda>c. \<not> is_sep c) (rev p))"

definition os_path_split :: "string \<Rightarrow> string \<times> string" where
  "os_path_split path =
     (let (d, p) = splitdrive path;
          head = head_part p;
          head' = (if rstrip_seps head = [] then head else rstrip_seps head)
      in (d @ head', tail_part p))"

definition os_path_dirname :: "string \<Rightarrow> string" where
  "os_path_dirname p = fst (os_path_split p)"

text \<open>
  \<^verbatim>\<open>os.path.splitext\<close>: the extension starts at the last dot of the last component,
  unless only dots stand before it there.
\<close>

definition os_path_splitext :: "string \<Rightarrow> string \<times> string" where
  "os_path_splitext p =
     (let base = tail_part p;
          ext = rev (takeWhile (\<lambda>c. c \<noteq> CHR ''.'') (rev base));
          stem = take (length base - length ext - 1) base
      in if CHR ''.'' \<in> set base \<and> (\<exists>c \<in> set stem. c \<noteq> CHR ''.'')
         then (take (length p - length ext - 1) p, CHR ''.'' # ext)
         else (p, []))"

definition os_path_join :: "string \<Rightarrow> string \<Rightarrow> string" where
  "os_path_join path p =
     (let (result_drive, result_path) = splitdrive path;
          (p_drive, p_path) = splitdrive p
      in if p_path \<noteq> [] \<and> is_sep (hd p_path) then
           (if p_drive \<noteq> [] \<or> result_drive = [] then p_drive else result_drive) @ p_path
         else if p_drive \<noteq> [] \<and> p_drive \<noteq> result_drive \<and> lower p_drive \<noteq> lower result_drive then
           p_drive @ p_path
         else
           (if p_drive \<noteq> [] \<and> p_drive \<noteq> result_drive then p_drive else result_drive)
           @ (if result_path \<noteq> [] \<and> \<not> is_sep (last result_path) then result_path @ [backslash] else result_path)
           @ p_path)"

section \<open>The host, the collaborators and the state of a run\<close>

text \<open>
  A \<^verbatim>\<open>datetime\<close> is compared field by field; the run's \<^verbatim>\<open>formatted_time\<close> is
  \<^verbatim>\<open>strftime("%y-%m-%dT%H.%M.%S")\<close> of it.
\<close>

record datetime =
  year :: nat
  month :: nat
  day :: nat
  hour :: nat
  minute :: nat
  second :: nat
  microsecond :: nat

fun lex_le :: "nat list \<Rightarrow> nat list \<Rightarrow> bool" where
  "lex_le [] ys = True"
| "lex_le (x # xs) [] = False"
| "lex_le (x # xs) (y # ys) = (x < y \<or> (x = y \<and> lex_le xs ys))"

definition datetime_fields :: "datetime \<Rightarrow> nat list" where
  "datetime_fields d = [year d, month d, day d, hour d, minute d, second d, microsecond d]"

definition datetime_ge :: "datetime \<Rightarrow> datetime \<Rightarrow> bool" where
  "datetime_ge a b = lex_le (datetime_fields b) (datetime_fields a)"

definition two_digits :: "nat \<Rightarrow> string" where
  "two_digits n = zfill 2 (str_nat n)"

definition strftime_run :: "datetime \<Rightarrow> string" where
  "strftime_run d =
     two_digits (year d mod 100) @ ''-'' @ two_digits (month d) @ ''-'' @ two_digits (day d) @ ''T''
     @ two_digits (hour d) @ ''.'' @ two_digits (minute d) @ ''.'' @ two_digits (second d)"

text \<open>A scene node: its \<^verbatim>\<open>PersistentID\<close> user property, if it has one, and its name.\<close>

record node =
  PersistentID :: "string option"
  node_name :: string

text \<open>
  The host as the engine reads and writes it. \<open>renderPixelAspect\<close> is the host's
  value in its printed form. \<open>mtime\<close> is the file system: the modification time
  of every path that exists. \<open>vraylog\<close> holds the lines of V-Ray's log file,
  \<open>None\<close> when the file cannot be opened. \<open>now\<close> is what \<^verbatim>\<open>datetime.now()\<close>
  returns and \<open>time_time\<close> what \<^verbatim>\<open>time.time()\<close> returns, in seconds.
\<close>

record host =
  renderWidth :: int
  renderHeight :: int
  renderPixelAspect :: string
  renderSceneDialog_isOpen :: bool
  rend_time :: time_settings
  objects :: "node list"
  state_sets :: "string list"
  scene_states :: "string list"
  renderer_current :: string
  region_enabled :: bool
  testRes_enabled :: bool
  followMouse_enabled :: bool
  debugShading_enabled :: bool
  mtime :: "string \<Rightarrow> real option"
  vraylog :: "string list option"
  now :: datetime
  time_time :: real
  txtDefaultOutputPath :: string
  project_folder :: string
  renderPresets_dir :: string
  vpost_dir :: string

record render_call =
  camera :: node
  frame :: int
  outputwidth :: int
  outputheight :: int
  pixelaspect :: string
  outputfile :: string

text \<open>
  The collaborators: what they do to the host is theirs to decide, so each is a
  parameter. \<open>rt_render\<close> returns the \<^verbatim>\<open>cancelled\<close> flag;
  \<open>warn_render_settings_open\<close> takes the title and the message of a prompt and
  returns the button's value, \<open>None\<close> when the window was closed. \<open>abspath\<close>
  depends on the process's working directory and \<open>strptime\<close> on the locale, so
  both are parameters too; \<open>strptime\<close> gives \<open>None\<close> where Python raises
  \<^verbatim>\<open>ValueError\<close>. \<open>DEBUG_disable_rendering\<close> is the dialog's attribute.
\<close>

record env =
  rt_render :: "render_call \<Rightarrow> host \<Rightarrow> bool \<times> host"
  warn_render_settings_open :: "string \<Rightarrow> string \<Rightarrow> host \<Rightarrow> bool option \<times> host"
  SetCurrentStateSet :: "string \<Rightarrow> host \<Rightarrow> host"
  RestoreAllParts :: "string \<Rightarrow> host \<Rightarrow> host"
  renderPresets_LoadAll :: "string \<Rightarrow> host \<Rightarrow> host"
  loadLayersFromFile :: "string \<Rightarrow> host \<Rightarrow> host"
  vfb_saveimage :: "string \<Rightarrow> host \<Rightarrow> host"
  saveDialogData :: "host \<Rightarrow> host"
  strptime :: "string \<Rightarrow> datetime option"
  abspath :: "string \<Rightarrow> string"
  DEBUG_disable_rendering :: bool

datatype level = DEBUG | INFO | WARNING | ERROR

text \<open>
  One attempt to render a frame, noted when \<^verbatim>\<open>do_render\<close> calls the host: the call
  and the value of \<^verbatim>\<open>canceled_renders\<close> at that moment.
\<close>

record attempt =
  at_call :: render_call
  canceled_before :: nat

text \<open>
  The state of a run: the host, the calls of \<^verbatim>\<open>log\<close> in order (the elapsed time
  and the floating-point numbers some messages end with are left out of the
  text; the indentation of the log window is not modelled), the attempts, and
  the local variables of \<^verbatim>\<open>main\<close>. \<open>original_size\<close> is \<^verbatim>\<open>original_renderWidth\<close> and
  \<^verbatim>\<open>original_renderHeight\<close>, unbound until the first enabled row.
\<close>

record state =
  hst :: host
  logged :: "(level \<times> string) list"
  attempts :: "attempt list"
  total_rows_to_render :: nat
  rendered_rows :: nat
  canceled_renders :: nat
  python_render_error :: bool
  render_queue_canceled :: bool
  original_size :: "(int \<times> int) option"

datatype 'a outcome = Returned 'a | Raised error | Hang

text \<open>\<^verbatim>\<open>log(level, text)\<close>.\<close>

definition log_call :: "level \<Rightarrow> string \<Rightarrow> state \<Rightarrow> state" where
  "log_call lv text st = st\<lparr>logged := logged st @ [(lv, text)]\<rparr>"

definition max_canceled_before_exit :: nat where
  "max_canceled_before_exit = 2"

definition DEFAULT_PATH_TEXT :: string where
  "DEFAULT_PATH_TEXT = ''Default Path + Name''"

definition stateSet_prefix :: string where
  "stateSet_prefix = ''State Set: ''"

definition sceneState_prefix :: string where
  "sceneState_prefix = ''Scene State: ''"

definition os_path_exists :: "host \<Rightarrow> string \<Rightarrow> bool" where
  "os_path_exists h p = (mtime h p \<noteq> None)"

definition convert_path_to_absolute :: "env \<Rightarrow> host \<Rightarrow> string \<Rightarrow> string" where
  "convert_path_to_absolute ev h relative_path = abspath ev (os_path_join (project_folder h) relative_path)"

text \<open>\<^verbatim>\<open>get_item_by_id\<close>: the first node whose identity is set, not empty, and the one asked for.\<close>

fun find_node :: "node list \<Rightarrow> string option \<Rightarrow> node option" where
  "find_node [] unique_id = None"
| "find_node (n # ns) unique_id =
     (case PersistentID n of
        None \<Rightarrow> find_node ns unique_id
      | Some object_id \<Rightarrow>
          if object_id \<noteq> [] \<and> Some object_id = unique_id then Some n else find_node ns unique_id)"

definition str_opt :: "string option \<Rightarrow> string" where
  "str_opt v = (case v of None \<Rightarrow> ''None'' | Some s \<Rightarrow> s)"

definition get_item_by_id :: "host \<Rightarrow> string option \<Rightarrow> error + node" where
  "get_item_by_id h unique_id =
     (case find_node (objects h) unique_id of
        None \<Rightarrow> Inl (ValueError (''No object could not be found by unique ID '' @ [CHR 0x22] @ str_opt unique_id @ [CHR 0x22]))
      | Some n \<Rightarrow> Inr n)"

section \<open>Per-entry resolution of the overrides\<close>

text \<open>
  \<^verbatim>\<open>get_resolution_disp\<close> returns the host's two integers for \<^verbatim>\<open>"Default"\<close> and the
  pieces of the cell text otherwise; \<^verbatim>\<open>main\<close> converts them with \<^verbatim>\<open>int(resolution[0])\<close>
  and \<^verbatim>\<open>int(resolution[1])\<close> only when it calls \<^verbatim>\<open>do_render\<close>.
\<close>

datatype resolution = ResInts int int | ResStrs "string list"

definition get_resolution_disp :: "string \<Rightarrow> int \<Rightarrow> int \<Rightarrow> resolution \<times> string" where
  "get_resolution_disp res original_width original_height =
     (if res = ''Default'' then
        (ResInts original_width original_height, join_str ''x'' [str_int original_width, str_int original_height])
      else (ResStrs (split_chr CHR ''x'' res), join_str ''x'' (split_chr CHR ''x'' res)))"

definition resolution_ints :: "resolution \<Rightarrow> error + (int \<times> int)" where
  "resolution_ints r =
     (case r of
        ResInts w h \<Rightarrow> Inr (w, h)
      | ResStrs ps \<Rightarrow>
          (case ps of
             [] \<Rightarrow> Inl (IndexError ''list index out of range'')
           | a # rest \<Rightarrow>
               (case py_int a of
                  Inl e \<Rightarrow> Inl e
                | Inr w \<Rightarrow>
                    (case rest of
                       [] \<Rightarrow> Inl (IndexError ''list index out of range'')
                     | b # _ \<Rightarrow> (case py_int b of Inl e \<Rightarrow> Inl e | Inr h \<Rightarrow> Inr (w, h))))))"

definition get_pixel_aspect :: "string \<Rightarrow> host \<Rightarrow> string \<times> host" where
  "get_pixel_aspect pixel_aspect h =
     (if pixel_aspect = ''Default'' then (renderPixelAspect h, h)
      else (pixel_aspect, h\<lparr>renderPixelAspect := pixel_aspect\<rparr>))"

definition scene_state_missing :: "string \<Rightarrow> error" where
  "scene_state_missing scene_state_disp =
     ValueError (''Scene State or State Set '' @ scene_state_disp @ '' does not exist.'')"

definition get_and_set_scene_state :: "env \<Rightarrow> string option \<Rightarrow> host \<Rightarrow> (error + string option) \<times> host" where
  "get_and_set_scene_state ev cell h =
     (let scene_state_disp = (case cell of None \<Rightarrow> [] | Some t \<Rightarrow> t) in
      if scene_state_disp \<noteq> [] then
        (if contains stateSet_prefix scene_state_disp then
           (let potential_stateSet = str_replace stateSet_prefix [] scene_state_disp in
            if potential_stateSet \<in> set (state_sets h)
            then (Inr (Some potential_stateSet), SetCurrentStateSet ev potential_stateSet h)
            else (Inl (scene_state_missing scene_state_disp), h))
         else if contains sceneState_prefix scene_state_disp then
           (let sceneState = str_replace sceneState_prefix [] scene_state_disp in
            if sceneState \<in> set (scene_states h)
            then (Inr (Some sceneState), RestoreAllParts ev sceneState h)
            else (Inl (scene_state_missing scene_state_disp), h))
         else (Inl (scene_state_missing scene_state_disp), h))
      else (Inr None, h))"

definition get_and_set_render_preset :: "env \<Rightarrow> string \<Rightarrow> host \<Rightarrow> string option \<times> host" where
  "get_and_set_render_preset ev preset_disp h =
     (if preset_disp \<noteq> [] then
        (Some preset_disp, renderPresets_LoadAll ev (os_path_join (renderPresets_dir h) preset_disp) h)
      else (None, h))"

definition get_and_set_layer_preset :: "env \<Rightarrow> string \<Rightarrow> host \<Rightarrow> string option \<times> host" where
  "get_and_set_layer_preset ev layer_preset_disp h =
     (if layer_preset_disp \<noteq> [] then
        (Some layer_preset_disp, loadLayersFromFile ev (os_path_join (vpost_dir h) layer_preset_disp) h)
      else (None, h))"

text \<open>
  \<^verbatim>\<open>get_valid_filename\<close>: the substitutions, then in pre-check mode the prompt about
  blank values (anything but the \<^verbatim>\<open>Yes\<close> button cancels), then the validation.
\<close>

definition get_valid_filename :: "env \<Rightarrow> bool \<Rightarrow> item_values \<Rightarrow> host \<Rightarrow> (error + string) \<times> host" where
  "get_valid_filename ev pre_check item_values h =
     (case resolve_template item_values of
        Inl e \<Rightarrow> (Inl e, h)
      | Inr (render_name, blank_values) \<Rightarrow>
          (let (continue_with_render, h1) =
                 (if blank_values \<and> pre_check
                  then warn_render_settings_open ev ''Warning!'' (blank_flags_message (Name item_values) render_name) h
                  else (Some True, h))
           in if continue_with_render \<noteq> Some True then
                (Inl (ValueError (''Canceled because of blank replacement flags in '' @ [CHR 0x22] @ Name item_values @ [CHR 0x22])), h1)
              else if name_invalid render_name then
                (Inl (ValueError (''Image name invalid!: '' @ render_name)), h1)
              else (Inr render_name, h1)))"

section \<open>Output-path allocator\<close>

text \<open>
  \<^verbatim>\<open>get_output_path\<close>. The local \<^verbatim>\<open>output_path_png\<close> is assigned in the first branch
  only: \<open>None\<close> is the unbound local, and reading it raises \<^verbatim>\<open>UnboundLocalError\<close>.
\<close>

definition get_output_path :: "env \<Rightarrow> host \<Rightarrow> string \<Rightarrow> string \<Rightarrow> error + (string \<times> string)" where
  "get_output_path ev h output_path name =
     (let (path, output_path1, output_path_png) =
            (if output_path = DEFAULT_PATH_TEXT then
               (txtDefaultOutputPath h,
                os_path_join (txtDefaultOutputPath h) (name @ ''.exr''),
                Some (os_path_join (txtDefaultOutputPath h) (name @ ''.png'')))
             else (os_path_dirname output_path, output_path, None));
          path2 = convert_path_to_absolute ev h path;
          output_path2 = convert_path_to_absolute ev h output_path1
      in case output_path_png of
           None \<Rightarrow> Inl (UnboundLocalError ''cannot access local variable output_path_png where it is not associated with a value'')
         | Some png \<Rightarrow>
             (let output_path_png2 = convert_path_to_absolute ev h png in
              if \<not> os_path_exists h path2 then Inl (ValueError (''Output directory doesnt exist!: '' @ path2))
              else Inr (output_path2, output_path_png2)))"

definition dupe_count_str :: "nat \<Rightarrow> string" where
  "dupe_count_str dupe_count = (if dupe_count = 0 then [] else '' ('' @ str_nat dupe_count @ '')'')"

definition candidate_name :: "string \<Rightarrow> int \<Rightarrow> string \<Rightarrow> string \<Rightarrow> nat \<Rightarrow> string" where
  "candidate_name filename frm formatted_time file_extension dupe_count =
     filename @ ''_'' @ fmt_04d frm @ ''_'' @ formatted_time @ dupe_count_str dupe_count @ file_extension"

definition candidate_path :: "string \<Rightarrow> int \<Rightarrow> string \<Rightarrow> nat \<Rightarrow> string" where
  "candidate_path output_path frm formatted_time dupe_count =
     (let (directory, file_name) = os_path_split output_path;
          (filename, file_extension) = os_path_splitext file_name
      in os_path_join directory (candidate_name filename frm formatted_time file_extension dupe_count))"

text \<open>
  The \<^verbatim>\<open>while True\<close> loop of \<^verbatim>\<open>prevent_duplicate_files\<close>: it ends at the first count
  whose candidate does not exist, and never if every candidate exists.
\<close>

partial_function (option) probe :: "(string \<Rightarrow> bool) \<Rightarrow> (nat \<Rightarrow> string) \<Rightarrow> nat \<Rightarrow> nat option" where
  "probe exists cand dupe_count =
     (if exists (cand dupe_count) then probe exists cand (Suc dupe_count) else Some dupe_count)"

declare probe.simps [code]

definition duplicate_message :: "string \<Rightarrow> string \<Rightarrow> string" where
  "duplicate_message original_full_filename file_name =
     ''An image with the same name already exists. ''
     @ ''A number will automatically be append to the end of the file name to prevent overwriting. ''
     @ ''If this is not the desired result, move or rename the existing file.''
     @ newline @ ''Original name: '' @ original_full_filename
     @ newline @ ''New name:      '' @ file_name"

definition prevent_duplicate_files ::
  "env \<Rightarrow> bool \<Rightarrow> string \<Rightarrow> int \<Rightarrow> string \<Rightarrow> host \<Rightarrow> (string \<times> string) option \<times> host" where
  "prevent_duplicate_files ev pre_check output_path frm formatted_time h =
     (case probe (os_path_exists h) (candidate_path output_path frm formatted_time) 0 of
        None \<Rightarrow> (None, h)
      | Some dupe_count \<Rightarrow>
          (let file_path = candidate_path output_path frm formatted_time dupe_count;
               file_name = snd (os_path_split file_path);
               h1 = (if pre_check \<and> 0 < dupe_count
                     then snd (warn_render_settings_open ev ''Image already exists!''
                            (duplicate_message (candidate_path output_path frm formatted_time 0) file_name) h)
                     else h)
           in (Some (file_path, file_name), h1)))"

section \<open>Precondition validator\<close>

definition problem_message :: "string list \<Rightarrow> string option" where
  "problem_message message =
     (case message of
        [] \<Rightarrow> None
      | [a] \<Rightarrow> Some (a @ '' is enabled'')
      | [a, b] \<Rightarrow> Some (join_str '' and '' [a, b] @ '' are enabled'')
      | _ \<Rightarrow> Some (join_str '', '' (butlast message) @ '', and '' @ last message @ '' are enabled''))"

text \<open>
  \<^verbatim>\<open>check_VFB_settings\<close> returns \<^verbatim>\<open>continue_with_render\<close> (the prompt's answer in
  pre-check mode when there is a message, \<^verbatim>\<open>True\<close> otherwise) and
  \<^verbatim>\<open>close_renderSceneDialog\<close>. It opens the render-settings panel when it is closed.
\<close>

definition check_VFB_settings :: "env \<Rightarrow> bool \<Rightarrow> host \<Rightarrow> (bool option \<times> bool) \<times> host" where
  "check_VFB_settings ev pre_check h =
     (let is_vray = contains ''V_Ray'' (renderer_current h);
          problem_settings = [(''Region render'', region_enabled h), (''Test resolution'', testRes_enabled h),
                              (''Follow mouse'', followMouse_enabled h), (''Debug shading'', debugShading_enabled h)];
          message = (if is_vray then problem_message (map fst (filter snd problem_settings))
                     else Some ''V-Ray is not set as current renderer!'');
          close_renderSceneDialog = (is_vray \<and> \<not> renderSceneDialog_isOpen h);
          h1 = (if close_renderSceneDialog then h\<lparr>renderSceneDialog_isOpen := True\<rparr> else h)
      in case message of
           Some m \<Rightarrow>
             (if pre_check then
                (let (continue_with_render, h2) =
                       warn_render_settings_open ev ''Warning!'' (m @ ''. Do you want to proceed?'') h1
                 in ((continue_with_render, close_renderSceneDialog), h2))
              else ((Some True, close_renderSceneDialog), h1))
         | None \<Rightarrow> ((Some True, close_renderSceneDialog), h1))"

section \<open>Rendering one frame\<close>

text \<open>The first match of the regular expression \<^verbatim>\<open>\[.*?]\<close> in a line.\<close>

definition bracket :: "string \<Rightarrow> string option" where
  "bracket line =
     (let rest = dropWhile (\<lambda>c. c \<noteq> CHR ''['') line in
      if rest = [] then None
      else if dropWhile (\<lambda>c. c \<noteq> CHR '']'') (tl rest) = [] then None
      else Some (CHR ''['' # takeWhile (\<lambda>c. c \<noteq> CHR '']'') (tl rest) @ '']''))"

fun scan_log :: "env \<Rightarrow> datetime \<Rightarrow> string list \<Rightarrow> error + string option" where
  "scan_log ev time_of_render [] = Inr None"
| "scan_log ev time_of_render (l # ls) =
     (let line = strip l in
      case bracket line of
        None \<Rightarrow> Inl (AttributeError ''NoneType object has no attribute group'')
      | Some line_timestamp_formatted \<Rightarrow>
          (case strptime ev line_timestamp_formatted of
             None \<Rightarrow> Inl (ValueError (''time data '' @ line_timestamp_formatted @ '' does not match format''))
           | Some line_timestamp_datetime \<Rightarrow>
               if datetime_ge line_timestamp_datetime time_of_render \<and> contains ''error: '' line
               then Inr (Some (strip (str_replace (line_timestamp_formatted @ '' error'') ''Error'' line)))
               else scan_log ev time_of_render ls))"

definition were_there_render_errors :: "env \<Rightarrow> host \<Rightarrow> datetime \<Rightarrow> error + string option" where
  "were_there_render_errors ev h time_of_render =
     (case vraylog h of
        None \<Rightarrow> Inl (OSError ''No such file or directory: vraylog.txt'')
      | Some lines \<Rightarrow> scan_log ev time_of_render lines)"

text \<open>Python's truth value of \<^verbatim>\<open>vray_log_error\<close>: \<^verbatim>\<open>None\<close> and the empty string are false.\<close>

definition truthy :: "string option \<Rightarrow> bool" where
  "truthy v = (case v of None \<Rightarrow> False | Some s \<Rightarrow> s \<noteq> [])"

definition stale_file_message :: string where
  "stale_file_message = ''Waring: File seems too old in relation to when the image was rendered. ''
     @ ''The image may have not written to the file correctly.''"

text \<open>
  \<^verbatim>\<open>do_render\<close>: 0 for a successful render, 1 for a canceled one, 2 for a failed one.
  The attempt is noted just before the host's \<^verbatim>\<open>rt.render\<close> runs.
\<close>

definition do_render ::
  "env \<Rightarrow> node \<Rightarrow> int \<Rightarrow> string \<Rightarrow> string \<Rightarrow> string \<Rightarrow> int \<Rightarrow> int \<Rightarrow> state \<Rightarrow> nat outcome \<times> state" where
  "do_render ev cam frm outputfile_exr outputfile_png pixel_aspect image_width image_height st =
     (let time_of_render = now (hst st);
          call = \<lparr>camera = cam, frame = frm, outputwidth = image_width, outputheight = image_height,
                  pixelaspect = pixel_aspect, outputfile = outputfile_exr\<rparr>;
          st0 = st\<lparr>attempts := attempts st @ [\<lparr>at_call = call, canceled_before = canceled_renders st\<rparr>]\<rparr>;
          (canceled, h1) = rt_render ev call (hst st0);
          st1 = st0\<lparr>hst := h1\<rparr>;
          (checked, st2) =
            (if \<not> canceled then
               (case mtime h1 outputfile_exr of
                  Some last_modified_time \<Rightarrow>
                    (if time_time h1 - last_modified_time \<ge> 60
                     then (Inr (Some stale_file_message), log_call WARNING ''Time difference: '' st1)
                     else (Inr None, st1))
                | None \<Rightarrow> (Inr (Some ''Error: File doesnt exist!''), st1))
             else (were_there_render_errors ev h1 time_of_render, st1))
      in case checked of
           Inl e \<Rightarrow> (Raised e, st2)
         | Inr vray_log_error \<Rightarrow>
             if \<not> canceled \<and> \<not> truthy vray_log_error then
               (Returned 0,
                log_call INFO (''Output path: '' @ outputfile_exr)
                  (log_call INFO ''Image rendered successfully! Elapsed time: ''
                     (st2\<lparr>hst := vfb_saveimage ev (str_replace [backslash] ''/'' outputfile_png) (hst st2)\<rparr>)))
             else if canceled \<and> \<not> truthy vray_log_error then
               (Returned 1, log_call WARNING ''Render was canceled! Elapsed time: '' st2)
             else
               (Returned 2,
                log_call ERROR (case vray_log_error of None \<Rightarrow> ''None'' | Some m \<Rightarrow> m)
                  (log_call ERROR ''Render failed! Elapsed time: '' st2)))"

section \<open>Queue executor\<close>

text \<open>
  The loop over the frames of one entry: \<open>render_frame\<close> is its body up to the
  test that ends the loop early, \<open>render_frames\<close> the loop. In commit mode each
  frame is rendered and a result of 1 counts as a cancellation; after every
  frame the loop ends early once \<^verbatim>\<open>canceled_renders\<close> has reached
  \<^verbatim>\<open>max_canceled_before_exit\<close>. \<open>x\<close> is the index \<^verbatim>\<open>enumerate\<close> gives the frame.
\<close>

definition threshold_reached :: "state \<Rightarrow> bool" where
  "threshold_reached st = (max_canceled_before_exit \<noteq> 0 \<and> canceled_renders st \<ge> max_canceled_before_exit)"

text \<open>\<^verbatim>\<open>if render_result == 1: canceled_renders += 1\<close>.\<close>

definition count_canceled :: "nat outcome \<Rightarrow> state \<Rightarrow> state" where
  "count_canceled render_result st =
     (if render_result = Returned 1 then st\<lparr>canceled_renders := canceled_renders st + 1\<rparr> else st)"

definition render_frame ::
  "env \<Rightarrow> bool \<Rightarrow> node \<Rightarrow> resolution \<Rightarrow> string \<Rightarrow> string \<Rightarrow> string \<Rightarrow> string \<Rightarrow> nat \<Rightarrow> nat
   \<Rightarrow> int \<Rightarrow> state \<Rightarrow> nat outcome \<times> state" where
  "render_frame ev pre_check cam res pixel_aspect output_path_exr output_path_png formatted_time
     total_frames x frm st =
     (case prevent_duplicate_files ev pre_check output_path_exr frm formatted_time (hst st) of
        (None, h1) \<Rightarrow> (Hang, st\<lparr>hst := h1\<rparr>)
      | (Some (outputfile_exr, full_filename), h1) \<Rightarrow>
          (case prevent_duplicate_files ev pre_check output_path_png frm formatted_time h1 of
             (None, h2) \<Rightarrow> (Hang, st\<lparr>hst := h2\<rparr>)
           | (Some (outputfile_png, none), h2) \<Rightarrow>
               (let st2 = st\<lparr>hst := h2\<rparr> in
                if \<not> pre_check then
                  (let st3 = log_call INFO (''Rendering frame '' @ str_int frm @ '' ('' @ str_nat (x + 1) @ ''/''
                                @ str_nat total_frames @ '') '' @ full_filename) st2;
                       (render_result, st4) =
                         (if \<not> DEBUG_disable_rendering ev then
                            (case resolution_ints res of
                               Inl e \<Rightarrow> (Raised e, st3)
                             | Inr (w, h) \<Rightarrow>
                                 do_render ev cam frm outputfile_exr outputfile_png pixel_aspect w h st3)
                          else (Returned 0, st3))
                   in (render_result, count_canceled render_result st4))
                else (Returned 0, st2))))"

fun render_frames ::
  "env \<Rightarrow> bool \<Rightarrow> node \<Rightarrow> resolution \<Rightarrow> string \<Rightarrow> string \<Rightarrow> string \<Rightarrow> string \<Rightarrow> nat \<Rightarrow> nat
   \<Rightarrow> int list \<Rightarrow> state \<Rightarrow> unit outcome \<times> state" where
  "render_frames ev pre_check cam res pixel_aspect output_path_exr output_path_png formatted_time
     total_frames x [] st = (Returned (), st)"
| "render_frames ev pre_check cam res pixel_aspect output_path_exr output_path_png formatted_time
     total_frames x (frm # frames) st =
     (case render_frame ev pre_check cam res pixel_aspect output_path_exr output_path_png formatted_time
             total_frames x frm st of
        (Raised e, st5) \<Rightarrow> (Raised e, st5)
      | (Hang, st5) \<Rightarrow> (Hang, st5)
      | (Returned v, st5) \<Rightarrow>
          if threshold_reached st5 then (Returned (), st5)
          else render_frames ev pre_check cam res pixel_aspect output_path_exr output_path_png
                 formatted_time total_frames (x + 1) frames st5)"

definition rendering_message ::
  "nat \<Rightarrow> state \<Rightarrow> string \<Rightarrow> string \<Rightarrow> string \<Rightarrow> string \<Rightarrow> string \<Rightarrow> string option \<Rightarrow> string option
   \<Rightarrow> string option \<Rightarrow> string" where
  "rendering_message row_id st name camera_name resolution_disp frame_range_disp pixel_aspect
     scene_state_disp preset_disp layer_preset_disp =
     ''Rendering: ['' @ str_nat (row_id + 1) @ ''] ('' @ str_nat (rendered_rows st) @ ''/''
     @ str_nat (total_rows_to_render st) @ '') '' @ name @ '' | '' @ camera_name @ '' | '' @ resolution_disp
     @ '' | '' @ frame_range_disp @ '' | '' @ pixel_aspect @ '' | '' @ str_opt scene_state_disp
     @ '' | '' @ str_opt preset_disp @ '' | '' @ str_opt layer_preset_disp"

text \<open>
  The body of the loop over the rows, for one enabled row, in two parts.
  \<open>prepare_row\<close> is the part the source heads \<^verbatim>\<open># Prepare parameters\<close> and
  \<^verbatim>\<open># Prepare scene\<close>, up to the log line \<^verbatim>\<open>Rendering: ...\<close>: it resolves the camera,
  the frames, the resolution and the pixel aspect, applies the scene state and
  the presets, resolves the name and the output paths, and counts the row. What
  it hands to the loop over the frames is a \<open>prepared\<close> row; \<open>p_width\<close> and
  \<open>p_height\<close> are \<^verbatim>\<open>original_renderWidth\<close> and \<^verbatim>\<open>original_renderHeight\<close>. An
  exception leaves with the state as it is at that point: nothing that was
  changed is undone.
\<close>

record prepared =
  p_camera :: node
  p_frames :: "int list"
  p_resolution :: resolution
  p_pixel_aspect :: string
  p_exr :: string
  p_png :: string
  p_width :: int
  p_height :: int

definition prepare_row :: "env \<Rightarrow> bool \<Rightarrow> nat \<Rightarrow> item_values \<Rightarrow> state \<Rightarrow> (error + prepared) \<times> state" where
  "prepare_row ev pre_check row_id rowProperties st =
     (let st1 = (if pre_check
                 then (log_call INFO (''Checking: ['' @ str_nat (row_id + 1) @ ''] '' @ Name rowProperties) st)
                        \<lparr>total_rows_to_render := total_rows_to_render st + 1\<rparr>
                 else st)
      in case get_item_by_id (hst st1) (Camera_Hidden rowProperties) of
           Inl e \<Rightarrow> (Inl e, log_call ERROR (''Couldnt find camera: '' @ str_opt (Camera_Hidden rowProperties)) st1)
         | Inr cam \<Rightarrow>
      (case get_frame_range (rend_time (hst st1)) (Range_cell rowProperties) of
           Inl e \<Rightarrow> (Inl e, st1)
         | Inr frame_range \<Rightarrow>
      (let frame_range_disp = get_frame_range_display frame_range;
           original_renderWidth = renderWidth (hst st1);
           original_renderHeight = renderHeight (hst st1);
           st2 = st1\<lparr>original_size := Some (original_renderWidth, original_renderHeight)\<rparr>;
           (res, resolution_disp) =
             get_resolution_disp (Resolution rowProperties) original_renderWidth original_renderHeight;
           rowProperties1 = rowProperties\<lparr>Resolution_Display := resolution_disp\<rparr>;
           (pixel_aspect, h3) = get_pixel_aspect (Pixel_Aspect rowProperties1) (hst st2)
       in case get_and_set_scene_state ev (Scene_State rowProperties1) h3 of
            (Inl e, h4) \<Rightarrow> (Inl e, st2\<lparr>hst := h4\<rparr>)
          | (Inr scene_state_disp, h4) \<Rightarrow>
      (let rowProperties2 = rowProperties1\<lparr>Scene_State := scene_state_disp\<rparr>;
           (preset_disp, h5) = get_and_set_render_preset ev (Render_Preset rowProperties2) h4;
           (layer_preset_disp, h6) = get_and_set_layer_preset ev (Layer_Preset rowProperties2) h5
       in case get_valid_filename ev pre_check rowProperties2 h6 of
            (Inl e, h7) \<Rightarrow> (Inl e, st2\<lparr>hst := h7\<rparr>)
          | (Inr name, h7) \<Rightarrow>
      (case get_output_path ev h7 (Output_Path rowProperties2) name of
            Inl e \<Rightarrow> (Inl e, st2\<lparr>hst := h7\<rparr>)
          | Inr (output_path_exr, output_path_png) \<Rightarrow>
      (let st3 = st2\<lparr>hst := h7, rendered_rows := rendered_rows st2 + 1\<rparr>;
           st4 = (if \<not> pre_check
                  then log_call INFO (rendering_message row_id st3 name (Camera rowProperties2) resolution_disp
                         frame_range_disp pixel_aspect scene_state_disp preset_disp layer_preset_disp) st3
                  else st3)
       in (Inr \<lparr>p_camera = cam, p_frames = frames_of frame_range, p_resolution = res,
                p_pixel_aspect = pixel_aspect, p_exr = output_path_exr, p_png = output_path_png,
                p_width = original_renderWidth, p_height = original_renderHeight\<rparr>, st4)))))))"

text \<open>
  \<open>process_row\<close> is the whole body: the prepared row's frames are rendered with
  the \<^verbatim>\<open>formatted_time\<close> taken from the clock at that moment, the render width and
  height are set back, and the body ends with \<^verbatim>\<open>break\<close> (the result \<open>True\<close>) when
  the threshold of cancellations is reached in commit mode.
\<close>

definition process_row :: "env \<Rightarrow> bool \<Rightarrow> nat \<Rightarrow> item_values \<Rightarrow> state \<Rightarrow> bool outcome \<times> state" where
  "process_row ev pre_check row_id rowProperties st =
     (if \<not> Use rowProperties then (Returned False, st)
      else
        (case prepare_row ev pre_check row_id rowProperties st of
           (Inl e, st1) \<Rightarrow> (Raised e, st1)
         | (Inr p, st4) \<Rightarrow>
             (let formatted_time = strftime_run (now (hst st4)) in
              case render_frames ev pre_check (p_camera p) (p_resolution p) (p_pixel_aspect p) (p_exr p) (p_png p)
                     formatted_time (length (p_frames p)) 0 (p_frames p) st4 of
                (Raised e, st5) \<Rightarrow> (Raised e, st5)
              | (Hang, st5) \<Rightarrow> (Hang, st5)
              | (Returned u, st5) \<Rightarrow>
                  (let st6 = st5\<lparr>hst := (hst st5)\<lparr>renderWidth := p_width p, renderHeight := p_height p\<rparr>\<rparr>
                   in if threshold_reached st6 \<and> \<not> pre_check
                      then (Returned True,
                            log_call WARNING ''Canceled render queue!'' (st6\<lparr>render_queue_canceled := True\<rparr>))
                      else (Returned False, st6)))))"

text \<open>
  The loop over the rows with its handler: a \<^verbatim>\<open>ValueError\<close> is logged, sets
  \<^verbatim>\<open>python_render_error\<close> and the loop goes on with the next row; any other exception
  leaves \<^verbatim>\<open>main\<close>.
\<close>

fun rows_loop :: "env \<Rightarrow> bool \<Rightarrow> nat \<Rightarrow> item_values list \<Rightarrow> state \<Rightarrow> unit outcome \<times> state" where
  "rows_loop ev pre_check row_id [] st = (Returned (), st)"
| "rows_loop ev pre_check row_id (rowProperties # rows) st =
     (case process_row ev pre_check row_id rowProperties st of
        (Raised e, st1) \<Rightarrow>
          if is_ValueError e
          then rows_loop ev pre_check (row_id + 1) rows ((log_call ERROR (error_str e) st1)\<lparr>python_render_error := True\<rparr>)
          else (Raised e, st1)
      | (Hang, st1) \<Rightarrow> (Hang, st1)
      | (Returned brk, st1) \<Rightarrow>
          if brk then (Returned (), st1) else rows_loop ev pre_check (row_id + 1) rows st1)"

text \<open>
  What \<^verbatim>\<open>start_batch_render\<close> returns: \<^verbatim>\<open>True\<close>, the count of the pre-check,
  \<^verbatim>\<open>False\<close>, or nothing (\<^verbatim>\<open>None\<close>).
\<close>

datatype result = RTrue | RCount nat | RFalse | RNone

definition falsy :: "result \<Rightarrow> bool" where
  "falsy r = (case r of RTrue \<Rightarrow> False | RCount n \<Rightarrow> n = 0 | RFalse \<Rightarrow> True | RNone \<Rightarrow> True)"

definition count_of :: "result \<Rightarrow> nat" where
  "count_of r = (case r of RTrue \<Rightarrow> 1 | RCount n \<Rightarrow> n | RFalse \<Rightarrow> 0 | RNone \<Rightarrow> 0)"

text \<open>
  \<open>queue_pass\<close> is \<^verbatim>\<open>main\<close> from \<^verbatim>\<open>self.saveDialogData()\<close> on, for the rows of the
  table (taken as they are when the run starts); \<open>total0\<close> is the value
  \<^verbatim>\<open>total_rows_to_render\<close> has there.
\<close>

definition queue_pass :: "env \<Rightarrow> bool \<Rightarrow> item_values list \<Rightarrow> nat \<Rightarrow> state \<Rightarrow> result outcome \<times> state" where
  "queue_pass ev pre_check rows total0 st =
     (let st0 = st\<lparr>hst := saveDialogData ev (hst st), total_rows_to_render := total0, rendered_rows := 0,
                    canceled_renders := 0, python_render_error := False, render_queue_canceled := False,
                    original_size := None\<rparr>;
          ((continue_with_render, close_renderSceneDialog), h1) = check_VFB_settings ev pre_check (hst st0);
          st1 = st0\<lparr>hst := h1\<rparr>
      in if continue_with_render \<noteq> Some True then (Returned RNone, st1)
         else
           (case rows_loop ev pre_check 0 rows st1 of
              (Raised e, st2) \<Rightarrow> (Raised e, st2)
            | (Hang, st2) \<Rightarrow> (Hang, st2)
            | (Returned u, st2) \<Rightarrow>
                (let st3 = (if close_renderSceneDialog
                            then st2\<lparr>hst := (hst st2)\<lparr>renderSceneDialog_isOpen := False\<rparr>\<rparr> else st2)
                 in if \<not> pre_check \<and> \<not> render_queue_canceled st3 then
                      (Returned RTrue, log_call INFO ''Rendering done!'' st3)
                    else if pre_check \<and> \<not> python_render_error st3 then
                      (Returned (RCount (total_rows_to_render st3)), log_call INFO ''No errors found!'' st3)
                    else if pre_check \<and> python_render_error st3 then
                      (Returned RFalse, log_call ERROR ''Error(s) found. Canceled render!'' st3)
                    else (Returned RNone, st3))))"

text \<open>
  \<^verbatim>\<open>start_batch_render(pre_check)\<close>: a commit run first runs the pre-check pass and
  goes on only if that returned a count other than zero.
\<close>

definition start_batch_render :: "env \<Rightarrow> bool \<Rightarrow> item_values list \<Rightarrow> state \<Rightarrow> result outcome \<times> state" where
  "start_batch_render ev pre_check rows st =
     (if \<not> pre_check then
        (case queue_pass ev True rows 0 (log_call INFO ''Starting render pre-check...'' st) of
           (Raised e, st1) \<Rightarrow> (Raised e, st1)
         | (Hang, st1) \<Rightarrow> (Hang, st1)
         | (Returned total_rows, st1) \<Rightarrow>
             if falsy total_rows then (Returned RNone, st1)
             else queue_pass ev False rows (count_of total_rows) (log_call INFO ''Starting batch render...'' st1))
      else queue_pass ev True rows 0 st)"

definition initial_state :: "host \<Rightarrow> state" where
  "initial_state h = \<lparr>hst = h, logged = [], attempts = [], total_rows_to_render = 0, rendered_rows = 0,
     canceled_renders = 0, python_render_error = False, render_queue_canceled = False, original_size = None\<rparr>"

section \<open>Concrete hosts and collaborators\<close>

text \<open>
  The inputs the closed theorems below run the engine on: a host with one camera
  (identity \<^verbatim>\<open>id-1\<close>), render size 1920 by 1080, pixel aspect 1.0, the V-Ray
  renderer, no test toggle on, the clock at 2024-01-01 00:00:00 and
  \<^verbatim>\<open>time.time()\<close> at 1000; the files are given as pairs of a path and its
  modification time. The prompts are answered \<^verbatim>\<open>Yes\<close>; paths are written absolute
  and normalised, so \<open>abspath\<close> returns them unchanged.
\<close>

definition win_path :: "string list \<Rightarrow> string" where
  "win_path parts = join_str [backslash] parts"

definition demo_time :: time_settings where
  "demo_time = \<lparr>rendTimeType = SingleFrame, currentTime_frame = 1, animationRange_start = 0,
     animationRange_end = 100, rendStart = 0, rendEnd = 100, rendNThFrame = 1, rendPickupFrames = ''1, 3-5, 8''\<rparr>"

definition demo_host :: "(string \<times> real) list \<Rightarrow> host" where
  "demo_host files = \<lparr>renderWidth = 1920, renderHeight = 1080, renderPixelAspect = ''1.0'',
     renderSceneDialog_isOpen = False, rend_time = demo_time,
     objects = [\<lparr>PersistentID = Some ''id-1'', node_name = ''Cam01''\<rparr>],
     state_sets = [], scene_states = [], renderer_current = ''V_Ray_GPU_6'',
     region_enabled = False, testRes_enabled = False, followMouse_enabled = False, debugShading_enabled = False,
     mtime = map_of files, vraylog = Some [],
     now = \<lparr>year = 2024, month = 1, day = 1, hour = 0, minute = 0, second = 0, microsecond = 0\<rparr>,
     time_time = 1000, txtDefaultOutputPath = win_path [''C:'', ''out''],
     project_folder = win_path [''C:'', ''proj''],
     renderPresets_dir = win_path [''C:'', ''presets''], vpost_dir = win_path [''C:'', ''vpost'']\<rparr>"

definition out_dir :: "(string \<times> real) list" where
  "out_dir = [(win_path [''C:'', ''out''], 0)]"

definition demo_strptime :: "string \<Rightarrow> datetime option" where
  "demo_strptime s =
     (if s = ''[2023/Dec/31|23:59:59]''
      then Some \<lparr>year = 2023, month = 12, day = 31, hour = 23, minute = 59, second = 59, microsecond = 0\<rparr>
      else if s = ''[2024/Jan/01|00:00:05]''
      then Some \<lparr>year = 2024, month = 1, day = 1, hour = 0, minute = 0, second = 5, microsecond = 0\<rparr>
      else None)"

definition demo_env :: "(render_call \<Rightarrow> host \<Rightarrow> bool \<times> host) \<Rightarrow> env" where
  "demo_env rnd = \<lparr>rt_render = rnd,
     warn_render_settings_open = (\<lambda>title message h. (Some True, h)),
     SetCurrentStateSet = (\<lambda>n h. h), RestoreAllParts = (\<lambda>n h. h),
     renderPresets_LoadAll = (\<lambda>n h. h), loadLayersFromFile = (\<lambda>n h. h),
     vfb_saveimage = (\<lambda>n h. h), saveDialogData = (\<lambda>h. h),
     strptime = demo_strptime, abspath = (\<lambda>p. p), DEBUG_disable_rendering = False\<rparr>"

text \<open>
  Four hosts' renders: one that writes the output file now; one the user cancels;
  one that reports no cancellation and writes nothing; one that writes the file
  and takes a second of the clock.
\<close>

definition render_ok :: "render_call \<Rightarrow> host \<Rightarrow> bool \<times> host" where
  "render_ok c h = (False, h\<lparr>mtime := (mtime h)(outputfile c \<mapsto> time_time h)\<rparr>)"

definition render_canceled :: "render_call \<Rightarrow> host \<Rightarrow> bool \<times> host" where
  "render_canceled c h = (True, h)"

definition render_idle :: "render_call \<Rightarrow> host \<Rightarrow> bool \<times> host" where
  "render_idle c h = (False, h)"

definition render_tick :: "render_call \<Rightarrow> host \<Rightarrow> bool \<times> host" where
  "render_tick c h =
     (False, h\<lparr>mtime := (mtime h)(outputfile c \<mapsto> time_time h + 1), time_time := time_time h + 1,
               now := (now h)\<lparr>second := second (now h) + 1\<rparr>\<rparr>)"

text \<open>An enabled row for camera \<^verbatim>\<open>Cam01\<close> with the default output path and resolution.\<close>

definition demo_row :: "string \<Rightarrow> string \<Rightarrow> string \<Rightarrow> string \<Rightarrow> item_values" where
  "demo_row name cam_id rng aspect = \<lparr>Use = True, Name = name, Camera = ''Cam01'', Camera_Hidden = Some cam_id,
     Output_Path = DEFAULT_PATH_TEXT, Range_cell = rng, Resolution = ''Default'', Pixel_Aspect = aspect,
     Scene_State = Some [], Render_Preset = [], Layer_Preset = [], Resolution_Display = []\<rparr>"

definition demo_camera :: node where
  "demo_camera = \<lparr>PersistentID = Some ''id-1'', node_name = ''Cam01''\<rparr>"

section \<open>The scene a pre-check reads\<close>

text \<open>
  What the validation of an entry reads of the host: the nodes, the render-time
  settings, the scene configurations, the default output path, the project
  folder and the file system. \<open>keeps_scene\<close> says of the collaborators the
  pre-check pass calls that they leave these as they are. \<open>checks_cleanly\<close> says
  of one row, checked from one state, that the check comes to an end and raises
  nothing but a \<^verbatim>\<open>ValueError\<close>, the one exception \<^verbatim>\<open>main\<close> handles.
\<close>

definition scene ::
  "host \<Rightarrow> node list \<times> time_settings \<times> string list \<times> string list \<times> string \<times> string \<times> (string \<Rightarrow> real option)" where
  "scene h = (objects h, rend_time h, state_sets h, scene_states h, txtDefaultOutputPath h, project_folder h, mtime h)"

definition keeps_scene :: "env \<Rightarrow> bool" where
  "keeps_scene ev =
     (\<forall>h. scene (saveDialogData ev h) = scene h
        \<and> (\<forall>title message. scene (snd (warn_render_settings_open ev title message h)) = scene h)
        \<and> (\<forall>n. scene (SetCurrentStateSet ev n h) = scene h \<and> scene (RestoreAllParts ev n h) = scene h
              \<and> scene (renderPresets_LoadAll ev n h) = scene h \<and> scene (loadLayersFromFile ev n h) = scene h))"

definition checks_cleanly :: "env \<Rightarrow> nat \<Rightarrow> item_values \<Rightarrow> state \<Rightarrow> bool" where
  "checks_cleanly ev row_id rp st =
     (case fst (process_row ev True row_id rp st) of
        Returned b \<Rightarrow> True
      | Raised e \<Rightarrow> is_ValueError e
      | Hang \<Rightarrow> False)"

text \<open>The check of the row raises.\<close>

definition fails_check :: "env \<Rightarrow> nat \<Rightarrow> item_values \<Rightarrow> state \<Rightarrow> bool" where
  "fails_check ev row_id rp st =
     (case fst (process_row ev True row_id rp st) of
        Returned b \<Rightarrow> False
      | Raised e \<Rightarrow> True
      | Hang \<Rightarrow> False)"

section \<open>Facts about the helpers\<close>

lemma split_chr_nonempty: "split_chr sep s \<noteq> []"
  by (induction s) (auto split: list.splits)

section \<open>Frame-range display\<close>

text \<open>
  C4. The literal field value \<^verbatim>\<open>"1:3"\<close> parses to \<^verbatim>\<open>range(1, 4)\<close>, whose frames are
  1, 2, 3; \<^verbatim>\<open>get_frame_range_display\<close> prints the range's \<^verbatim>\<open>stop\<close>, which is one past
  the last frame, so the display string is \<^verbatim>\<open>"1-4"\<close> and not \<^verbatim>\<open>"1-3"\<close>.
\<close>

theorem display_of_1_3_shows_stop:
  "get_frame_range rt ''1:3'' = Inr (PyRange 1 4 1)
   \<and> frames_of (PyRange 1 4 1) = [1, 2, 3]
   \<and> get_frame_range_display (PyRange 1 4 1) = ''1-4''"
  by code_simp

section \<open>Template resolution\<close>

lemma resolve_default_name:
  "resolve_template \<lparr>Use = u, Name = ''Default'', Camera = ''Cam01_VRayPhysicalCamera'', Camera_Hidden = ch,
     Output_Path = op, Range_cell = rg, Resolution = rs, Pixel_Aspect = pa,
     Scene_State = ss, Render_Preset = rp, Layer_Preset = lp, Resolution_Display = rd\<rparr> = Inr (''Cam01'', False)"
  by code_simp

lemma resolve_blank_scene_state:
  "resolve_template \<lparr>Use = u, Name = ''{Camera}_{Scene State}'', Camera = ''Cam01'', Camera_Hidden = ch,
     Output_Path = op, Range_cell = rg, Resolution = rs, Pixel_Aspect = pa,
     Scene_State = None, Render_Preset = rp, Layer_Preset = lp, Resolution_Display = rd\<rparr> = Inr (''Cam01_'', True)"
  by code_simp

lemma valid_Cam01: "\<not> name_invalid ''Cam01''"
  by (simp add: name_invalid_def invalid_chars_def backslash_def)

lemma valid_Cam01_: "\<not> name_invalid ''Cam01_''"
  by (simp add: name_invalid_def invalid_chars_def backslash_def)

text \<open>
  C9. With the name \<^verbatim>\<open>Default\<close> the template is \<^verbatim>\<open>{Camera}\<close> and the camera
  \<^verbatim>\<open>Cam01_VRayPhysicalCamera\<close> loses its suffix: the name resolves to \<^verbatim>\<open>Cam01\<close>, no
  blank value, in either mode and whatever the other columns hold. The name
  \<^verbatim>\<open>{Camera}_{Scene State}\<close> with camera \<^verbatim>\<open>Cam01\<close> and no scene configuration resolves
  to \<^verbatim>\<open>Cam01_\<close> with the blank-value flag set: the commit pass returns that name, and
  the pre-check pass asks first and returns it only on \<^verbatim>\<open>Yes\<close>.
\<close>

theorem template_resolution_examples:
  "resolve_template \<lparr>Use = u, Name = ''Default'', Camera = ''Cam01_VRayPhysicalCamera'', Camera_Hidden = ch,
     Output_Path = op, Range_cell = rg, Resolution = rs, Pixel_Aspect = pa,
     Scene_State = ss, Render_Preset = rp, Layer_Preset = lp, Resolution_Display = rd\<rparr> = Inr (''Cam01'', False)
   \<and> get_valid_filename ev pre_check \<lparr>Use = u, Name = ''Default'', Camera = ''Cam01_VRayPhysicalCamera'', Camera_Hidden = ch,
     Output_Path = op, Range_cell = rg, Resolution = rs, Pixel_Aspect = pa,
     Scene_State = ss, Render_Preset = rp, Layer_Preset = lp, Resolution_Display = rd\<rparr> h = (Inr ''Cam01'', h)
   \<and> resolve_template \<lparr>Use = u, Name = ''{Camera}_{Scene State}'', Camera = ''Cam01'', Camera_Hidden = ch,
     Output_Path = op, Range_cell = rg, Resolution = rs, Pixel_Aspect = pa,
     Scene_State = None, Render_Preset = rp, Layer_Preset = lp, Resolution_Display = rd\<rparr> = Inr (''Cam01_'', True)
   \<and> get_valid_filename ev False \<lparr>Use = u, Name = ''{Camera}_{Scene State}'', Camera = ''Cam01'', Camera_Hidden = ch,
     Output_Path = op, Range_cell = rg, Resolution = rs, Pixel_Aspect = pa,
     Scene_State = None, Render_Preset = rp, Layer_Preset = lp, Resolution_Display = rd\<rparr> h = (Inr ''Cam01_'', h)
   \<and> get_valid_filename ev True \<lparr>Use = u, Name = ''{Camera}_{Scene State}'', Camera = ''Cam01'', Camera_Hidden = ch,
     Output_Path = op, Range_cell = rg, Resolution = rs, Pixel_Aspect = pa,
     Scene_State = None, Render_Preset = rp, Layer_Preset = lp, Resolution_Display = rd\<rparr> h =
     (case warn_render_settings_open ev ''Warning!'' (blank_flags_message ''{Camera}_{Scene State}'' ''Cam01_'') h of
        (answer, h1) \<Rightarrow>
          (if answer = Some True then Inr ''Cam01_''
           else Inl (ValueError (''Canceled because of blank replacement flags in '' @ [CHR 0x22] @ ''{Camera}_{Scene State}'' @ [CHR 0x22])),
           h1))"
  unfolding get_valid_filename_def resolve_default_name resolve_blank_scene_state
  by (simp add: valid_Cam01 valid_Cam01_ split: prod.splits)

section \<open>Output paths\<close>

lemma get_output_path_literal:
  "output_path \<noteq> DEFAULT_PATH_TEXT \<Longrightarrow>
   get_output_path ev h output_path name =
     Inl (UnboundLocalError ''cannot access local variable output_path_png where it is not associated with a value'')"
  by (simp add: get_output_path_def)

text \<open>
  C5. For a literal output path \<^verbatim>\<open>get_output_path\<close> never binds \<^verbatim>\<open>output_path_png\<close>, so
  it raises \<^verbatim>\<open>UnboundLocalError\<close> where it converts that path: here for
  \<^verbatim>\<open>C:\out\shot.exr\<close>, whose directory \<^verbatim>\<open>C:\out\<close> exists.
\<close>

theorem literal_output_path_raises:
  "os_path_exists (demo_host out_dir)
     (convert_path_to_absolute (demo_env render_ok) (demo_host out_dir)
        (os_path_dirname (win_path [''C:'', ''out'', ''shot.exr''])))
   \<and> get_output_path (demo_env render_ok) (demo_host out_dir) (win_path [''C:'', ''out'', ''shot.exr'']) ''shot'' =
       Inl (UnboundLocalError ''cannot access local variable output_path_png where it is not associated with a value'')"
  by code_simp

section \<open>Duplicate avoidance\<close>





section \<open>Classification of a frame's outcome\<close>

lemma do_render_not_canceled_stale:
  assumes "rt_render ev \<lparr>camera = cam, frame = frm, outputwidth = w, outputheight = ht,
                          pixelaspect = pa, outputfile = exr\<rparr> (hst st) = (False, h1)"
    and "mtime h1 exr = Some t"
    and "time_time h1 - t \<ge> 60"
  shows "do_render ev cam frm exr png pa w ht st =
           (Returned 2,
            log_call ERROR stale_file_message
              (log_call ERROR ''Render failed! Elapsed time: ''
                 (log_call WARNING ''Time difference: ''
                    (st\<lparr>attempts := attempts st @ [\<lparr>at_call = \<lparr>camera = cam, frame = frm, outputwidth = w,
                            outputheight = ht, pixelaspect = pa, outputfile = exr\<rparr>,
                            canceled_before = canceled_renders st\<rparr>], hst := h1\<rparr>))))"
  using assms by (simp add: do_render_def Let_def truthy_def stale_file_message_def)

text \<open>
  C1, as the code has it. When the host reports no cancellation and the output
  file exists afterwards with a modification time 60 seconds or more before the
  current time, \<^verbatim>\<open>do_render\<close> returns 2, the code of a failed render: the time
  difference is logged as a warning, then \<^verbatim>\<open>Render failed!\<close> and the message about
  the old file are logged as errors, and the preview image is not saved (the
  host is left as the render left it).
\<close>

theorem stale_file_classified_failed:
  assumes "rt_render ev \<lparr>camera = cam, frame = frm, outputwidth = w, outputheight = ht,
                          pixelaspect = pa, outputfile = exr\<rparr> (hst st) = (False, h1)"
    and "mtime h1 exr = Some t"
    and "time_time h1 - t \<ge> 60"
  shows "fst (do_render ev cam frm exr png pa w ht st) = Returned 2
     \<and> logged (snd (do_render ev cam frm exr png pa w ht st)) =
         logged st @ [(WARNING, ''Time difference: ''), (ERROR, ''Render failed! Elapsed time: ''),
                      (ERROR, stale_file_message)]
     \<and> hst (snd (do_render ev cam frm exr png pa w ht st)) = h1"
  by (simp add: do_render_not_canceled_stale[OF assms] log_call_def)

theorem stale_file_classified_failed_witness:
  "rt_render (demo_env render_idle)
      \<lparr>camera = demo_camera, frame = 1, outputwidth = 1920, outputheight = 1080, pixelaspect = ''1.0'',
         outputfile = win_path [''C:'', ''out'', ''shot_0001.exr'']\<rparr>
      (hst (initial_state (demo_host [(win_path [''C:'', ''out'', ''shot_0001.exr''], 900)])))
     = (False, demo_host [(win_path [''C:'', ''out'', ''shot_0001.exr''], 900)])
   \<and> mtime (demo_host [(win_path [''C:'', ''out'', ''shot_0001.exr''], 900)])
         (win_path [''C:'', ''out'', ''shot_0001.exr'']) = Some 900
   \<and> time_time (demo_host [(win_path [''C:'', ''out'', ''shot_0001.exr''], 900)]) - 900 \<ge> 60
   \<and> fst (do_render (demo_env render_idle) demo_camera 1 (win_path [''C:'', ''out'', ''shot_0001.exr''])
            (win_path [''C:'', ''out'', ''shot_0001.png'']) ''1.0'' 1920 1080
            (initial_state (demo_host [(win_path [''C:'', ''out'', ''shot_0001.exr''], 900)]))) = Returned 2"
proof -
  let ?exr = "win_path [''C:'', ''out'', ''shot_0001.exr'']"
  let ?h = "demo_host [(?exr, 900)]"
  have a: "rt_render (demo_env render_idle)
      \<lparr>camera = demo_camera, frame = 1, outputwidth = 1920, outputheight = 1080, pixelaspect = ''1.0'',
         outputfile = ?exr\<rparr> (hst (initial_state ?h)) = (False, ?h)"
    by (simp add: demo_env_def render_idle_def initial_state_def)
  have b: "mtime ?h ?exr = Some 900" by (simp add: demo_host_def)
  have c: "time_time ?h - 900 \<ge> 60" by (simp add: demo_host_def)
  from stale_file_classified_failed[OF a b c, of "win_path [''C:'', ''out'', ''shot_0001.png'']"]
  have "fst (do_render (demo_env render_idle) demo_camera 1 ?exr (win_path [''C:'', ''out'', ''shot_0001.png''])
            ''1.0'' 1920 1080 (initial_state ?h)) = Returned 2" by blast
  with a b c show ?thesis by (intro conjI)
qed

text \<open>
  The claim's reading, success with only a warning, fails on the input above:
  no cancellation, the file exists, it is 100 seconds old, and the return code is
  2, not 0.
\<close>

theorem stale_file_not_success:
  "fst (render_idle
          \<lparr>camera = demo_camera, frame = 1, outputwidth = 1920, outputheight = 1080, pixelaspect = ''1.0'',
             outputfile = win_path [''C:'', ''out'', ''shot_0001.exr'']\<rparr>
          (demo_host [(win_path [''C:'', ''out'', ''shot_0001.exr''], 900)])) = False
   \<and> mtime (demo_host [(win_path [''C:'', ''out'', ''shot_0001.exr''], 900)])
         (win_path [''C:'', ''out'', ''shot_0001.exr'']) = Some 900
   \<and> time_time (demo_host [(win_path [''C:'', ''out'', ''shot_0001.exr''], 900)]) - 900 \<ge> 60
   \<and> fst (do_render (demo_env render_idle) demo_camera 1 (win_path [''C:'', ''out'', ''shot_0001.exr''])
            (win_path [''C:'', ''out'', ''shot_0001.png'']) ''1.0'' 1920 1080
            (initial_state (demo_host [(win_path [''C:'', ''out'', ''shot_0001.exr''], 900)]))) \<noteq> Returned 0
   \<and> fst (do_render (demo_env render_idle) demo_camera 1 (win_path [''C:'', ''out'', ''shot_0001.exr''])
            (win_path [''C:'', ''out'', ''shot_0001.png'']) ''1.0'' 1920 1080
            (initial_state (demo_host [(win_path [''C:'', ''out'', ''shot_0001.exr''], 900)]))) = Returned 2"
  by code_simp









section \<open>Runs of the queue on the concrete host\<close>

text \<open>
  C6. A commit run over two entries, the first with the pixel-aspect override
  \<^verbatim>\<open>2.0\<close>, the second with \<^verbatim>\<open>Default\<close>, on a host whose pixel aspect is 1.0:
  \<^verbatim>\<open>get_pixel_aspect\<close> writes the override into the host's global and nothing writes
  the old value back (only width and height are restored), so the second entry
  is rendered with 2.0 and the host is left at 2.0.
\<close>

theorem pixel_aspect_override_leaks:
  "renderPixelAspect (demo_host out_dir) = ''1.0''
   \<and> (case start_batch_render (demo_env render_ok) False
            [demo_row ''a'' ''id-1'' ''1:1'' ''2.0'', demo_row ''b'' ''id-1'' ''1:1'' ''Default'']
            (initial_state (demo_host out_dir)) of
        (r, st) \<Rightarrow>
          r = Returned RTrue
          \<and> map (\<lambda>a. pixelaspect (at_call a)) (attempts st) = [''2.0'', ''2.0'']
          \<and> renderPixelAspect (hst st) = ''2.0'')"
  by code_simp

text \<open>
  Against C3 as stated: a commit run over two entries of one frame each, on a
  host whose render takes one second. \<^verbatim>\<open>formatted_time\<close> is taken inside the loop
  over the rows, so the file of the second entry carries a later timestamp than
  the file of the first.
\<close>

theorem timestamps_differ_between_entries:
  "map (\<lambda>a. outputfile (at_call a))
     (attempts (snd (start_batch_render (demo_env render_tick) False
        [demo_row ''a'' ''id-1'' ''1:1'' ''Default'', demo_row ''b'' ''id-1'' ''1:1'' ''Default'']
        (initial_state (demo_host out_dir))))) =
   [win_path [''C:'', ''out'', ''a_0001_24-01-01T00.00.00.exr''],
    win_path [''C:'', ''out'', ''b_0001_24-01-01T00.00.01.exr'']]"
  by code_simp

text \<open>
  Against C2 as stated: a pre-check over three enabled entries, the second with
  a camera identity no node has. All three are checked, the counter
  \<^verbatim>\<open>total_rows_to_render\<close> ends at 3 although two entries passed the validation
  (\<^verbatim>\<open>rendered_rows\<close> is 2), and the pre-check returns \<^verbatim>\<open>False\<close>, not a count.
\<close>

theorem precheck_counter_counts_failed_entry:
  "(case start_batch_render (demo_env render_ok) True
            [demo_row ''a'' ''id-1'' ''1:1'' ''Default'', demo_row ''b'' ''id-9'' ''1:1'' ''Default'',
             demo_row ''c'' ''id-1'' ''1:1'' ''Default'']
            (initial_state (demo_host out_dir)) of
      (r, st) \<Rightarrow> r = Returned RFalse \<and> total_rows_to_render st = 3 \<and> rendered_rows st = 2)"
  by code_simp

section \<open>Invariants of the loops\<close>

lemma do_render_effect:
  "do_render ev cam frm exr png pa w h st = (out, st') \<Longrightarrow>
     attempts st' = attempts st @ [\<lparr>at_call = \<lparr>camera = cam, frame = frm, outputwidth = w, outputheight = h,
                                      pixelaspect = pa, outputfile = exr\<rparr>,
                                    canceled_before = canceled_renders st\<rparr>]
     \<and> canceled_renders st' = canceled_renders st
     \<and> total_rows_to_render st' = total_rows_to_render st
     \<and> rendered_rows st' = rendered_rows st
     \<and> python_render_error st' = python_render_error st
     \<and> render_queue_canceled st' = render_queue_canceled st
     \<and> original_size st' = original_size st"
  by (auto simp: do_render_def Let_def log_call_def split: prod.splits option.splits sum.splits if_splits)

lemma prevent_duplicate_files_name:
  "prevent_duplicate_files ev pre_check p frm ft h = (Some (fp, fname), h') \<Longrightarrow>
     \<exists>n. fp = candidate_path p frm ft n"
  by (auto simp: prevent_duplicate_files_def Let_def split: option.splits)

lemma render_frame_precheck:
  "render_frame ev True cam res pa exr png ft tot x frm st = (out, st') \<Longrightarrow>
     attempts st' = attempts st \<and> canceled_renders st' = canceled_renders st
     \<and> total_rows_to_render st' = total_rows_to_render st
     \<and> rendered_rows st' = rendered_rows st
     \<and> python_render_error st' = python_render_error st
     \<and> render_queue_canceled st' = render_queue_canceled st
     \<and> original_size st' = original_size st
     \<and> (out = Hang \<or> out = Returned 0)"
  by (auto simp: render_frame_def Let_def split: prod.splits option.splits)

lemma render_frame_commit:
  assumes "render_frame ev False cam res pa exr png ft tot x frm st = (out, st')"
  shows "total_rows_to_render st' = total_rows_to_render st
     \<and> rendered_rows st' = rendered_rows st
     \<and> python_render_error st' = python_render_error st
     \<and> render_queue_canceled st' = render_queue_canceled st
     \<and> original_size st' = original_size st
     \<and> ((attempts st' = attempts st \<and> canceled_renders st' = canceled_renders st)
         \<or> (\<exists>a. attempts st' = attempts st @ [a] \<and> canceled_before a = canceled_renders st
               \<and> frame (at_call a) = frm \<and> (\<exists>n. outputfile (at_call a) = candidate_path exr frm ft n)
               \<and> (canceled_renders st' = canceled_renders st
                   \<or> (canceled_renders st' = canceled_renders st + 1 \<and> out = Returned 1))))"
proof (cases "prevent_duplicate_files ev False exr frm ft (hst st)")
  case (Pair r1 h1)
  show ?thesis
  proof (cases r1)
    case None
    with Pair assms show ?thesis by (auto simp: render_frame_def)
  next
    case (Some p1)
    obtain outputfile_exr full_filename where p1: "p1 = (outputfile_exr, full_filename)" by (cases p1)
    from Pair Some p1 prevent_duplicate_files_name obtain n where n: "outputfile_exr = candidate_path exr frm ft n"
      by blast
    obtain r2 h2 where P2: "prevent_duplicate_files ev False png frm ft h1 = (r2, h2)" by force
    show ?thesis
    proof (cases r2)
      case None
      with Pair Some p1 P2 assms show ?thesis by (auto simp: render_frame_def)
    next
      case S2: (Some p2)
      obtain outputfile_png none where p2: "p2 = (outputfile_png, none)" by (cases p2)
      let ?st3 = "log_call INFO (''Rendering frame '' @ str_int frm @ '' ('' @ str_nat (x + 1) @ ''/''
                                @ str_nat tot @ '') '' @ full_filename) (st\<lparr>hst := h2\<rparr>)"
      show ?thesis
      proof (cases "DEBUG_disable_rendering ev")
        case True
        with Pair Some p1 P2 S2 p2 assms show ?thesis
          by (auto simp: render_frame_def Let_def count_canceled_def log_call_def)
      next
        case False
        show ?thesis
        proof (cases "resolution_ints res")
          case (Inl e)
          with False Pair Some p1 P2 S2 p2 assms show ?thesis
            by (auto simp: render_frame_def Let_def count_canceled_def log_call_def)
        next
          case (Inr wh)
          obtain w h where wh: "wh = (w, h)" by (cases wh)
          obtain r st4 where D: "do_render ev cam frm outputfile_exr outputfile_png pa w h ?st3 = (r, st4)"
            by force
          from do_render_effect[OF D] have E:
            "attempts st4 = attempts st @ [\<lparr>at_call = \<lparr>camera = cam, frame = frm, outputwidth = w, outputheight = h,
                                      pixelaspect = pa, outputfile = outputfile_exr\<rparr>,
                                    canceled_before = canceled_renders st\<rparr>]"
            "canceled_renders st4 = canceled_renders st"
            "total_rows_to_render st4 = total_rows_to_render st"
            "rendered_rows st4 = rendered_rows st"
            "python_render_error st4 = python_render_error st"
            "render_queue_canceled st4 = render_queue_canceled st"
            "original_size st4 = original_size st"
            by (simp_all add: log_call_def)
          from False Inr wh Pair Some p1 P2 S2 p2 D assms
          have res: "out = r" "st' = count_canceled r st4"
            by (auto simp: render_frame_def Let_def)
          show ?thesis
            using res E n by (auto simp: count_canceled_def)
        qed
      qed
    qed
  qed
qed

lemma render_frames_precheck:
  "render_frames ev True cam res pa exr png ft tot x frames st = (out, st') \<Longrightarrow>
     attempts st' = attempts st \<and> canceled_renders st' = canceled_renders st
     \<and> total_rows_to_render st' = total_rows_to_render st
     \<and> rendered_rows st' = rendered_rows st
     \<and> python_render_error st' = python_render_error st
     \<and> render_queue_canceled st' = render_queue_canceled st
     \<and> original_size st' = original_size st
     \<and> (out = Hang \<or> out = Returned ())"
proof (induction frames arbitrary: x st)
  case Nil
  then show ?case by auto
next
  case (Cons frm frames)
  obtain r st5 where F: "render_frame ev True cam res pa exr png ft tot x frm st = (r, st5)" by force
  note RF = render_frame_precheck[OF F]
  show ?case
  proof (cases "r = Hang")
    case True
    with F Cons.prems RF show ?thesis by auto
  next
    case False
    with RF have r: "r = Returned 0" by simp
    show ?thesis
    proof (cases "threshold_reached st5")
      case True
      with F r Cons.prems RF show ?thesis by auto
    next
      case False
      with F r Cons.prems
      have "render_frames ev True cam res pa exr png ft tot (x + 1) frames st5 = (out, st')" by simp
      from Cons.IH[OF this] RF show ?thesis by simp
    qed
  qed
qed

lemma render_frames_commit:
  "canceled_renders st < max_canceled_before_exit \<Longrightarrow>
   render_frames ev False cam res pa exr png ft tot x frames st = (out, st') \<Longrightarrow>
     total_rows_to_render st' = total_rows_to_render st
     \<and> rendered_rows st' = rendered_rows st
     \<and> python_render_error st' = python_render_error st
     \<and> render_queue_canceled st' = render_queue_canceled st
     \<and> original_size st' = original_size st
     \<and> (\<exists>new. attempts st' = attempts st @ new \<and> (\<forall>a \<in> set new. canceled_before a < max_canceled_before_exit))
     \<and> canceled_renders st' \<le> max_canceled_before_exit
     \<and> (canceled_renders st' = max_canceled_before_exit \<longrightarrow> out = Returned ())"
proof (induction frames arbitrary: x st)
  case Nil
  then show ?case by auto
next
  case (Cons frm frames)
  obtain r st5 where F: "render_frame ev False cam res pa exr png ft tot x frm st = (r, st5)" by force
  from render_frame_commit[OF F] have kept:
    "total_rows_to_render st5 = total_rows_to_render st" "rendered_rows st5 = rendered_rows st"
    "python_render_error st5 = python_render_error st" "render_queue_canceled st5 = render_queue_canceled st"
    "original_size st5 = original_size st"
    and att: "(attempts st5 = attempts st \<and> canceled_renders st5 = canceled_renders st)
         \<or> (\<exists>a. attempts st5 = attempts st @ [a] \<and> canceled_before a = canceled_renders st
               \<and> (canceled_renders st5 = canceled_renders st
                   \<or> (canceled_renders st5 = canceled_renders st + 1 \<and> r = Returned 1)))"
    by auto
  have new5: "\<exists>new. attempts st5 = attempts st @ new
      \<and> (\<forall>a \<in> set new. canceled_before a < max_canceled_before_exit)"
  proof -
    from att consider (same) "attempts st5 = attempts st"
      | (one) a where "attempts st5 = attempts st @ [a]" "canceled_before a = canceled_renders st" by blast
    then show ?thesis
    proof cases
      case same
      then show ?thesis by simp
    next
      case one
      with Cons.prems(1) show ?thesis by simp
    qed
  qed
  from att Cons.prems(1) have le5: "canceled_renders st5 \<le> max_canceled_before_exit" by auto
  from att Cons.prems(1) have eq5: "canceled_renders st5 = max_canceled_before_exit \<Longrightarrow> \<exists>v. r = Returned v"
    by auto
  show ?case
  proof (cases r)
    case (Raised e)
    with F Cons.prems(2) have "out = Raised e" "st' = st5" by auto
    with kept new5 le5 eq5 Raised show ?thesis by auto
  next
    case Hang
    with F Cons.prems(2) have "out = Hang" "st' = st5" by auto
    with kept new5 le5 eq5 Hang show ?thesis by auto
  next
    case (Returned v)
    show ?thesis
    proof (cases "threshold_reached st5")
      case True
      with Returned F Cons.prems(2) have "out = Returned ()" "st' = st5" by auto
      with kept new5 le5 show ?thesis by auto
    next
      case False
      with le5 have lt5: "canceled_renders st5 < max_canceled_before_exit"
        by (auto simp: threshold_reached_def max_canceled_before_exit_def)
      from False Returned F Cons.prems(2)
      have "render_frames ev False cam res pa exr png ft tot (x + 1) frames st5 = (out, st')" by simp
      from Cons.IH[OF lt5 this] have IH:
        "total_rows_to_render st' = total_rows_to_render st5" "rendered_rows st' = rendered_rows st5"
        "python_render_error st' = python_render_error st5" "render_queue_canceled st' = render_queue_canceled st5"
        "original_size st' = original_size st5"
        "\<exists>new. attempts st' = attempts st5 @ new \<and> (\<forall>a \<in> set new. canceled_before a < max_canceled_before_exit)"
        "canceled_renders st' \<le> max_canceled_before_exit"
        "canceled_renders st' = max_canceled_before_exit \<longrightarrow> out = Returned ()"
        by auto
      from new5 obtain n1 where n1: "attempts st5 = attempts st @ n1"
        "\<forall>a \<in> set n1. canceled_before a < max_canceled_before_exit" by blast
      from IH(6) obtain n2 where n2: "attempts st' = attempts st5 @ n2"
        "\<forall>a \<in> set n2. canceled_before a < max_canceled_before_exit" by blast
      from n1 n2 have "attempts st' = attempts st @ (n1 @ n2)
        \<and> (\<forall>a \<in> set (n1 @ n2). canceled_before a < max_canceled_before_exit)" by auto
      then have "\<exists>new. attempts st' = attempts st @ new \<and> (\<forall>a \<in> set new. canceled_before a < max_canceled_before_exit)"
        by (rule exI)
      with kept IH show ?thesis by simp
    qed
  qed
qed

lemma render_frames_names:
  "render_frames ev pre_check cam res pa exr png ft tot x frames st = (out, st') \<Longrightarrow>
     \<exists>new. attempts st' = attempts st @ new
       \<and> (\<forall>a \<in> set new. \<exists>n. outputfile (at_call a) = candidate_path exr (frame (at_call a)) ft n)"
proof (induction frames arbitrary: x st)
  case Nil
  then show ?case by auto
next
  case (Cons frm frames)
  obtain r st5 where F: "render_frame ev pre_check cam res pa exr png ft tot x frm st = (r, st5)" by force
  have new5: "\<exists>new. attempts st5 = attempts st @ new
       \<and> (\<forall>a \<in> set new. \<exists>n. outputfile (at_call a) = candidate_path exr (frame (at_call a)) ft n)"
  proof (cases pre_check)
    case True
    with F have "render_frame ev True cam res pa exr png ft tot x frm st = (r, st5)" by simp
    from render_frame_precheck[OF this] have "attempts st5 = attempts st" by simp
    then show ?thesis by simp
  next
    case False
    with F have "render_frame ev False cam res pa exr png ft tot x frm st = (r, st5)" by simp
    from render_frame_commit[OF this] consider (same) "attempts st5 = attempts st"
      | (one) a where "attempts st5 = attempts st @ [a]" "frame (at_call a) = frm"
          "\<exists>n. outputfile (at_call a) = candidate_path exr frm ft n" by blast
    then show ?thesis
    proof cases
      case same
      then show ?thesis by simp
    next
      case one
      then show ?thesis by simp
    qed
  qed
  show ?case
  proof (cases "\<exists>v. r = Returned v \<and> \<not> threshold_reached st5")
    case True
    with F Cons.prems
    have "render_frames ev pre_check cam res pa exr png ft tot (x + 1) frames st5 = (out, st')" by auto
    from Cons.IH[OF this] obtain n2 where n2: "attempts st' = attempts st5 @ n2"
      "\<forall>a \<in> set n2. \<exists>n. outputfile (at_call a) = candidate_path exr (frame (at_call a)) ft n" by blast
    from new5 obtain n1 where n1: "attempts st5 = attempts st @ n1"
      "\<forall>a \<in> set n1. \<exists>n. outputfile (at_call a) = candidate_path exr (frame (at_call a)) ft n" by blast
    from n1 n2 have "attempts st' = attempts st @ (n1 @ n2)
      \<and> (\<forall>a \<in> set (n1 @ n2). \<exists>n. outputfile (at_call a) = candidate_path exr (frame (at_call a)) ft n)"
      by auto
    then show ?thesis by (rule exI)
  next
    case False
    with F Cons.prems have "st' = st5" by (cases r) (auto split: if_splits)
    with new5 show ?thesis by simp
  qed
qed

lemma prepare_row_effect:
  "prepare_row ev pre_check row_id rp st = (r, st') \<Longrightarrow>
     attempts st' = attempts st \<and> canceled_renders st' = canceled_renders st
     \<and> python_render_error st' = python_render_error st
     \<and> render_queue_canceled st' = render_queue_canceled st
     \<and> total_rows_to_render st' = total_rows_to_render st + (if pre_check then 1 else 0)
     \<and> (case r of
           Inl e \<Rightarrow> rendered_rows st' = rendered_rows st
         | Inr p \<Rightarrow> rendered_rows st' = rendered_rows st + 1 \<and> original_size st' = Some (p_width p, p_height p))"
  by (auto simp: prepare_row_def Let_def log_call_def split: sum.splits prod.splits if_splits)

lemma process_row_commit:
  assumes lt: "canceled_renders st < max_canceled_before_exit"
    and run: "process_row ev False row_id rp st = (out, st')"
  shows "(\<exists>new. attempts st' = attempts st @ new \<and> (\<forall>a \<in> set new. canceled_before a < max_canceled_before_exit))
     \<and> canceled_renders st' \<le> max_canceled_before_exit
     \<and> (canceled_renders st' = max_canceled_before_exit \<longrightarrow>
           out = Returned True \<and> render_queue_canceled st'
           \<and> original_size st' = Some (renderWidth (hst st'), renderHeight (hst st'))
           \<and> logged st' \<noteq> [] \<and> last (logged st') = (WARNING, ''Canceled render queue!''))
     \<and> (canceled_renders st' < max_canceled_before_exit \<longrightarrow>
           out \<noteq> Returned True \<and> render_queue_canceled st' = render_queue_canceled st)"
proof (cases "Use rp")
  case False
  with run have "out = Returned False" "st' = st" by (auto simp: process_row_def)
  with lt show ?thesis by simp
next
  case True
  obtain r st4 where P: "prepare_row ev False row_id rp st = (r, st4)" by force
  from prepare_row_effect[OF P] have E4:
    "attempts st4 = attempts st" "canceled_renders st4 = canceled_renders st"
    "render_queue_canceled st4 = render_queue_canceled st" by auto
  show ?thesis
  proof (cases r)
    case (Inl e)
    with run True P have "out = Raised e" "st' = st4" by (auto simp: process_row_def)
    with E4 lt show ?thesis by simp
  next
    case (Inr p)
    with prepare_row_effect[OF P] have os4: "original_size st4 = Some (p_width p, p_height p)" by simp
    obtain o5 st5 where F: "render_frames ev False (p_camera p) (p_resolution p) (p_pixel_aspect p) (p_exr p)
        (p_png p) (strftime_run (now (hst st4))) (length (p_frames p)) 0 (p_frames p) st4 = (o5, st5)" by force
    from lt E4 have lt4: "canceled_renders st4 < max_canceled_before_exit" by simp
    from render_frames_commit[OF lt4 F] E4 os4 have E5:
      "render_queue_canceled st5 = render_queue_canceled st"
      "original_size st5 = Some (p_width p, p_height p)"
      "\<exists>new. attempts st5 = attempts st @ new \<and> (\<forall>a \<in> set new. canceled_before a < max_canceled_before_exit)"
      "canceled_renders st5 \<le> max_canceled_before_exit"
      "canceled_renders st5 = max_canceled_before_exit \<longrightarrow> o5 = Returned ()"
      by auto
    show ?thesis
    proof (cases o5)
      case (Raised e)
      with run True P Inr F have "out = Raised e" "st' = st5" by (auto simp: process_row_def Let_def)
      with E5 Raised show ?thesis by auto
    next
      case Hang
      with run True P Inr F have "out = Hang" "st' = st5" by (auto simp: process_row_def Let_def)
      with E5 Hang show ?thesis by auto
    next
      case (Returned u)
      let ?st6 = "st5\<lparr>hst := (hst st5)\<lparr>renderWidth := p_width p, renderHeight := p_height p\<rparr>\<rparr>"
      show ?thesis
      proof (cases "threshold_reached ?st6")
        case reached: True
        with run True P Inr F Returned
        have res: "out = Returned True"
          "st' = log_call WARNING ''Canceled render queue!'' (?st6\<lparr>render_queue_canceled := True\<rparr>)"
          by (auto simp: process_row_def Let_def)
        from reached E5(4) have "canceled_renders st5 = max_canceled_before_exit"
          by (simp add: threshold_reached_def)
        with res E5 show ?thesis by (simp add: log_call_def)
      next
        case notyet: False
        with run True P Inr F Returned
        have res: "out = Returned False" "st' = ?st6" by (auto simp: process_row_def Let_def)
        from notyet have "canceled_renders st5 < max_canceled_before_exit"
          by (simp add: threshold_reached_def max_canceled_before_exit_def)
        with res E5 show ?thesis by simp
      qed
    qed
  qed
qed

lemma process_row_precheck:
  assumes run: "process_row ev True row_id rp st = (out, st')"
  shows "attempts st' = attempts st \<and> canceled_renders st' = canceled_renders st
     \<and> python_render_error st' = python_render_error st
     \<and> out \<noteq> Returned True
     \<and> total_rows_to_render st' = total_rows_to_render st + (if Use rp then 1 else 0)
     \<and> rendered_rows st' \<le> rendered_rows st + (if Use rp then 1 else 0)
     \<and> ((\<exists>e. out = Raised e) \<longrightarrow> rendered_rows st' = rendered_rows st \<and> Use rp)
     \<and> ((\<exists>b. out = Returned b) \<longrightarrow> rendered_rows st' = rendered_rows st + (if Use rp then 1 else 0))"
proof (cases "Use rp")
  case False
  with run have "out = Returned False" "st' = st" by (auto simp: process_row_def)
  with False show ?thesis by simp
next
  case True
  obtain r st4 where P: "prepare_row ev True row_id rp st = (r, st4)" by force
  from prepare_row_effect[OF P] have E4:
    "attempts st4 = attempts st" "canceled_renders st4 = canceled_renders st"
    "python_render_error st4 = python_render_error st"
    "total_rows_to_render st4 = total_rows_to_render st + 1" by auto
  show ?thesis
  proof (cases r)
    case (Inl e)
    with run True P have res: "out = Raised e" "st' = st4" by (auto simp: process_row_def)
    from Inl prepare_row_effect[OF P] have "rendered_rows st4 = rendered_rows st" by simp
    with res E4 True show ?thesis by simp
  next
    case (Inr p)
    with prepare_row_effect[OF P] have r4: "rendered_rows st4 = rendered_rows st + 1" by simp
    obtain o5 st5 where F: "render_frames ev True (p_camera p) (p_resolution p) (p_pixel_aspect p) (p_exr p)
        (p_png p) (strftime_run (now (hst st4))) (length (p_frames p)) 0 (p_frames p) st4 = (o5, st5)" by force
    from render_frames_precheck[OF F] E4 r4 have E5:
      "attempts st5 = attempts st" "canceled_renders st5 = canceled_renders st"
      "python_render_error st5 = python_render_error st"
      "total_rows_to_render st5 = total_rows_to_render st + 1"
      "rendered_rows st5 = rendered_rows st + 1"
      "o5 = Hang \<or> o5 = Returned ()" by auto
    show ?thesis
    proof (cases "o5 = Hang")
      case True
      with run \<open>Use rp\<close> P Inr F have "out = Hang" "st' = st5" by (auto simp: process_row_def Let_def)
      with E5 \<open>Use rp\<close> show ?thesis by simp
    next
      case False
      with E5 have "o5 = Returned ()" by simp
      with run \<open>Use rp\<close> P Inr F have "out = Returned False"
        "st' = st5\<lparr>hst := (hst st5)\<lparr>renderWidth := p_width p, renderHeight := p_height p\<rparr>\<rparr>"
        by (auto simp: process_row_def Let_def)
      with E5 \<open>Use rp\<close> show ?thesis by simp
    qed
  qed
qed

lemma rows_loop_commit:
  "canceled_renders st < max_canceled_before_exit \<Longrightarrow>
   rows_loop ev False row_id rows st = (out, st') \<Longrightarrow>
     (\<exists>new. attempts st' = attempts st @ new \<and> (\<forall>a \<in> set new. canceled_before a < max_canceled_before_exit))
     \<and> canceled_renders st' \<le> max_canceled_before_exit
     \<and> (canceled_renders st' = max_canceled_before_exit \<longrightarrow>
           out = Returned () \<and> render_queue_canceled st'
           \<and> original_size st' = Some (renderWidth (hst st'), renderHeight (hst st'))
           \<and> logged st' \<noteq> [] \<and> last (logged st') = (WARNING, ''Canceled render queue!''))
     \<and> (canceled_renders st' < max_canceled_before_exit \<longrightarrow>
           render_queue_canceled st' = render_queue_canceled st)"
proof (induction rows arbitrary: row_id st)
  case Nil
  then show ?case by auto
next
  case (Cons rp rows)
  obtain o1 st1 where P: "process_row ev False row_id rp st = (o1, st1)" by force
  from process_row_commit[OF Cons.prems(1) P] have E1:
    "\<exists>new. attempts st1 = attempts st @ new \<and> (\<forall>a \<in> set new. canceled_before a < max_canceled_before_exit)"
    "canceled_renders st1 \<le> max_canceled_before_exit"
    "canceled_renders st1 = max_canceled_before_exit \<longrightarrow>
           o1 = Returned True \<and> render_queue_canceled st1
           \<and> original_size st1 = Some (renderWidth (hst st1), renderHeight (hst st1))
           \<and> logged st1 \<noteq> [] \<and> last (logged st1) = (WARNING, ''Canceled render queue!'')"
    "canceled_renders st1 < max_canceled_before_exit \<longrightarrow>
           o1 \<noteq> Returned True \<and> render_queue_canceled st1 = render_queue_canceled st"
    by auto
  from E1(1) obtain n1 where n1: "attempts st1 = attempts st @ n1"
    "\<forall>a \<in> set n1. canceled_before a < max_canceled_before_exit" by blast
  have stop: "out = o' \<Longrightarrow> st' = st1 \<Longrightarrow> (o1 = Returned True \<longrightarrow> o' = Returned ()) \<Longrightarrow> ?case" for o'
    using E1 by (cases "canceled_renders st1 = max_canceled_before_exit") auto
  have continue: "rows_loop ev False (row_id + 1) rows st2 = (out, st') \<Longrightarrow> o1 \<noteq> Returned True \<Longrightarrow>
      attempts st2 = attempts st1 \<Longrightarrow> canceled_renders st2 = canceled_renders st1 \<Longrightarrow>
      render_queue_canceled st2 = render_queue_canceled st1 \<Longrightarrow> ?case" for st2
  proof -
    assume R: "rows_loop ev False (row_id + 1) rows st2 = (out, st')" and o1: "o1 \<noteq> Returned True"
      and eqs: "attempts st2 = attempts st1" "canceled_renders st2 = canceled_renders st1"
        "render_queue_canceled st2 = render_queue_canceled st1"
    from o1 E1(2,3) have lt1: "canceled_renders st1 < max_canceled_before_exit" by auto
    with eqs have lt2: "canceled_renders st2 < max_canceled_before_exit" by simp
    from Cons.IH[OF lt2 R] obtain n2 where n2: "attempts st' = attempts st2 @ n2"
      "\<forall>a \<in> set n2. canceled_before a < max_canceled_before_exit"
      and rest: "canceled_renders st' \<le> max_canceled_before_exit"
       "canceled_renders st' = max_canceled_before_exit \<longrightarrow>
           out = Returned () \<and> render_queue_canceled st'
           \<and> original_size st' = Some (renderWidth (hst st'), renderHeight (hst st'))
           \<and> logged st' \<noteq> [] \<and> last (logged st') = (WARNING, ''Canceled render queue!'')"
       "canceled_renders st' < max_canceled_before_exit \<longrightarrow>
           render_queue_canceled st' = render_queue_canceled st2"
      by blast
    from n1 n2 eqs have "attempts st' = attempts st @ (n1 @ n2)
        \<and> (\<forall>a \<in> set (n1 @ n2). canceled_before a < max_canceled_before_exit)" by auto
    then have "\<exists>new. attempts st' = attempts st @ new \<and> (\<forall>a \<in> set new. canceled_before a < max_canceled_before_exit)"
      by (rule exI)
    with rest eqs lt1 E1(4) show ?thesis by simp
  qed
  show ?case
  proof (cases o1)
    case (Raised e)
    show ?thesis
    proof (cases "is_ValueError e")
      case True
      with Raised P Cons.prems(2)
      have "rows_loop ev False (row_id + 1) rows
              ((log_call ERROR (error_str e) st1)\<lparr>python_render_error := True\<rparr>) = (out, st')" by simp
      then show ?thesis by (rule continue) (simp_all add: Raised log_call_def)
    next
      case False
      with Raised P Cons.prems(2) have "out = Raised e" "st' = st1" by auto
      then show ?thesis by (rule stop) (simp add: Raised)
    qed
  next
    case Hang
    with P Cons.prems(2) have "out = Hang" "st' = st1" by auto
    then show ?thesis by (rule stop) (simp add: Hang)
  next
    case (Returned brk)
    show ?thesis
    proof (cases brk)
      case True
      with Returned P Cons.prems(2) have "out = Returned ()" "st' = st1" by auto
      then show ?thesis by (rule stop) simp
    next
      case False
      with Returned P Cons.prems(2)
      have "rows_loop ev False (row_id + 1) rows st1 = (out, st')" by simp
      then show ?thesis by (rule continue) (simp_all add: Returned False)
    qed
  qed
qed

lemma rows_loop_precheck:
  "rows_loop ev True row_id rows st = (Returned u, st') \<Longrightarrow>
     attempts st' = attempts st \<and> canceled_renders st' = canceled_renders st
     \<and> total_rows_to_render st' = total_rows_to_render st + length (filter Use rows)
     \<and> rendered_rows st \<le> rendered_rows st'
     \<and> rendered_rows st' \<le> rendered_rows st + length (filter Use rows)
     \<and> (python_render_error st' \<longleftrightarrow>
           python_render_error st \<or> rendered_rows st' < rendered_rows st + length (filter Use rows))"
proof (induction rows arbitrary: row_id st)
  case Nil
  then show ?case by auto
next
  case (Cons rp rows)
  obtain o1 st1 where P: "process_row ev True row_id rp st = (o1, st1)" by force
  note E1 = process_row_precheck[OF P]
  show ?case
  proof (cases o1)
    case (Raised e)
    with P Cons.prems have v: "is_ValueError e" by (auto split: if_splits)
    with Raised P Cons.prems
    have R: "rows_loop ev True (row_id + 1) rows
              ((log_call ERROR (error_str e) st1)\<lparr>python_render_error := True\<rparr>) = (Returned u, st')" by simp
    from E1 Raised have "Use rp" "rendered_rows st1 = rendered_rows st" by auto
    with Cons.IH[OF R] E1 show ?thesis by (auto simp: log_call_def)
  next
    case Hang
    with P Cons.prems show ?thesis by simp
  next
    case (Returned brk)
    with E1 have "\<not> brk" by auto
    with Returned P Cons.prems
    have R: "rows_loop ev True (row_id + 1) rows st1 = (Returned u, st')" by simp
    from E1 Returned have "rendered_rows st1 = rendered_rows st + (if Use rp then 1 else 0)" by auto
    with Cons.IH[OF R] E1 show ?thesis by auto
  qed
qed

section \<open>Cancellation threshold\<close>

lemma case_option_same: "(case m of None \<Rightarrow> a | Some x \<Rightarrow> a) = a"
  by (cases m) simp_all

lemma check_VFB_settings_commit: "fst (fst (check_VFB_settings ev False h)) = Some True"
  by (simp only: check_VFB_settings_def Let_def if_False case_option_same fst_conv)

text \<open>
  C7. The commit pass of \<^verbatim>\<open>main\<close> (\<open>queue_pass\<close> with \<open>pre_check = False\<close>), for any
  rows, host and collaborators. The threshold \<open>max_canceled_before_exit\<close> is 2.
  Every call of the host's render made in the pass was made while fewer than 2
  renders had been canceled: once the counter is at 2 no frame is attempted any
  more. The counter never passes 2. When it has reached 2 the pass returns
  nothing (\<^verbatim>\<open>None\<close>; below 2 it never returns that) with
  \<^verbatim>\<open>render_queue_canceled\<close> set and \<^verbatim>\<open>Canceled render queue!\<close> as the last log line;
  the host's render width and height are the saved ones, and the render-settings
  panel is closed if \<^verbatim>\<open>check_VFB_settings\<close> had opened it.
\<close>

theorem cancellation_threshold_aborts_queue:
  assumes "queue_pass ev False rows n st = (out, st')"
  shows "max_canceled_before_exit = 2
     \<and> (\<forall>a \<in> set (drop (length (attempts st)) (attempts st')). canceled_before a < max_canceled_before_exit)
     \<and> canceled_renders st' \<le> max_canceled_before_exit
     \<and> (canceled_renders st' = max_canceled_before_exit \<longrightarrow>
           out = Returned RNone \<and> render_queue_canceled st'
           \<and> last (logged st') = (WARNING, ''Canceled render queue!'')
           \<and> original_size st' = Some (renderWidth (hst st'), renderHeight (hst st'))
           \<and> (snd (fst (check_VFB_settings ev False (saveDialogData ev (hst st))))
                \<longrightarrow> \<not> renderSceneDialog_isOpen (hst st')))
     \<and> (canceled_renders st' < max_canceled_before_exit \<longrightarrow>
           out \<noteq> Returned RNone \<and> \<not> render_queue_canceled st')"
proof -
  let ?st0 = "st\<lparr>hst := saveDialogData ev (hst st), total_rows_to_render := n, rendered_rows := 0,
                    canceled_renders := 0, python_render_error := False, render_queue_canceled := False,
                    original_size := None\<rparr>"
  obtain cont close h1 where C: "check_VFB_settings ev False (saveDialogData ev (hst st)) = ((cont, close), h1)"
    by (metis prod.collapse)
  let ?st1 = "?st0\<lparr>hst := h1\<rparr>"
  from C check_VFB_settings_commit[of ev "saveDialogData ev (hst st)"] have True: "cont = Some True" by simp
  show ?thesis
  proof -
    obtain o2 st2 where R: "rows_loop ev False 0 rows ?st1 = (o2, st2)" by force
    have "canceled_renders ?st1 < max_canceled_before_exit" by (simp add: max_canceled_before_exit_def)
    from rows_loop_commit[OF this R] obtain new where
      new: "attempts st2 = attempts st @ new" "\<forall>a \<in> set new. canceled_before a < max_canceled_before_exit"
      and E2: "canceled_renders st2 \<le> max_canceled_before_exit"
        "canceled_renders st2 = max_canceled_before_exit \<longrightarrow>
           o2 = Returned () \<and> render_queue_canceled st2
           \<and> original_size st2 = Some (renderWidth (hst st2), renderHeight (hst st2))
           \<and> logged st2 \<noteq> [] \<and> last (logged st2) = (WARNING, ''Canceled render queue!'')"
        "canceled_renders st2 < max_canceled_before_exit \<longrightarrow> \<not> render_queue_canceled st2"
      by auto
    let ?st3 = "if close then st2\<lparr>hst := (hst st2)\<lparr>renderSceneDialog_isOpen := False\<rparr>\<rparr> else st2"
    have res: "(out, st') =
        (case o2 of Raised e \<Rightarrow> (Raised e, st2) | Hang \<Rightarrow> (Hang, st2)
         | Returned u \<Rightarrow> if \<not> render_queue_canceled st2 then (Returned RTrue, log_call INFO ''Rendering done!'' ?st3)
                          else (Returned RNone, ?st3))"
      using assms C True R by (auto simp: queue_pass_def Let_def split: outcome.splits)
    have att: "attempts st' = attempts st @ new" and can: "canceled_renders st' = canceled_renders st2"
      using res new by (auto simp: log_call_def split: outcome.splits if_splits)
    have reached: "out = Returned RNone \<and> render_queue_canceled st'
           \<and> last (logged st') = (WARNING, ''Canceled render queue!'')
           \<and> original_size st' = Some (renderWidth (hst st'), renderHeight (hst st'))
           \<and> (close \<longrightarrow> \<not> renderSceneDialog_isOpen (hst st'))"
      if "canceled_renders st2 = max_canceled_before_exit"
      using that E2(2) res by auto
    from att new(2) have "\<forall>a \<in> set (drop (length (attempts st)) (attempts st')). canceled_before a < max_canceled_before_exit"
      by simp
    moreover have "out \<noteq> Returned RNone \<and> \<not> render_queue_canceled st'"
      if "canceled_renders st2 < max_canceled_before_exit"
      using that E2(3) res by (auto simp: log_call_def split: outcome.splits)
    ultimately show ?thesis using can E2(1) reached C by (simp add: max_canceled_before_exit_def)
  qed
qed

theorem cancellation_threshold_aborts_queue_witness:
  "(case queue_pass (demo_env render_canceled) False
            [demo_row ''a'' ''id-1'' ''1:5'' ''Default'', demo_row ''b'' ''id-1'' ''1:5'' ''Default''] 2
            (initial_state (demo_host out_dir)) of
      (out, st') \<Rightarrow>
        canceled_renders st' = max_canceled_before_exit \<and> out = Returned RNone
        \<and> map (\<lambda>a. (frame (at_call a), canceled_before a)) (attempts st') = [(1, 0), (2, 1)]
        \<and> render_queue_canceled st'
        \<and> renderWidth (hst st') = 1920 \<and> renderHeight (hst st') = 1080
        \<and> original_size st' = Some (1920, 1080)
        \<and> \<not> renderSceneDialog_isOpen (hst st'))"
proof -
  obtain out st' where X: "queue_pass (demo_env render_canceled) False
            [demo_row ''a'' ''id-1'' ''1:5'' ''Default'', demo_row ''b'' ''id-1'' ''1:5'' ''Default''] 2
            (initial_state (demo_host out_dir)) = (out, st')" by force
  have "(case queue_pass (demo_env render_canceled) False
            [demo_row ''a'' ''id-1'' ''1:5'' ''Default'', demo_row ''b'' ''id-1'' ''1:5'' ''Default''] 2
            (initial_state (demo_host out_dir)) of
      (out, st') \<Rightarrow>
        canceled_renders st' = 2
        \<and> map (\<lambda>a. (frame (at_call a), canceled_before a)) (attempts st') = [(1, 0), (2, 1)]
        \<and> renderWidth (hst st') = 1920 \<and> renderHeight (hst st') = 1080)"
    by code_simp
  with X have run: "canceled_renders st' = 2"
    "map (\<lambda>a. (frame (at_call a), canceled_before a)) (attempts st') = [(1, 0), (2, 1)]"
    "renderWidth (hst st') = 1920" "renderHeight (hst st') = 1080" by simp_all
  have opened: "snd (fst (check_VFB_settings (demo_env render_canceled) False
      (saveDialogData (demo_env render_canceled) (hst (initial_state (demo_host out_dir))))))"
    by code_simp
  from cancellation_threshold_aborts_queue[OF X] run(1) opened
  have "out = Returned RNone" "render_queue_canceled st'"
    "original_size st' = Some (renderWidth (hst st'), renderHeight (hst st'))"
    "\<not> renderSceneDialog_isOpen (hst st')" by simp_all
  with run X show ?thesis by (simp add: max_canceled_before_exit_def)
qed

section \<open>Run timestamp\<close>

text \<open>
  C3, as the code has it. \<^verbatim>\<open>formatted_time\<close> is taken once per entry, from the
  clock as it stands when the entry has been prepared and before its first
  frame. Whatever the outcome of the entry and whatever the clock does while
  its frames render, every render call made for the entry writes to a candidate
  name of one output path with that one timestamp string.
\<close>

theorem entry_frames_share_timestamp:
  assumes "process_row ev pre_check row_id rp st = (out, st')"
  shows "\<exists>output_path new.
           attempts st' = attempts st @ new
           \<and> (\<forall>a \<in> set new. \<exists>n. outputfile (at_call a) =
                  candidate_path output_path (frame (at_call a))
                    (strftime_run (now (hst (snd (prepare_row ev pre_check row_id rp st))))) n)"
proof (cases "Use rp")
  case False
  with assms have "st' = st" by (auto simp: process_row_def)
  then have "attempts st' = attempts st @ []
      \<and> (\<forall>a \<in> set []. \<exists>n. outputfile (at_call a) =
            candidate_path [] (frame (at_call a))
              (strftime_run (now (hst (snd (prepare_row ev pre_check row_id rp st))))) n)" by simp
  then show ?thesis by (intro exI[where x = "[]"])
next
  case True
  obtain r st4 where P: "prepare_row ev pre_check row_id rp st = (r, st4)" by force
  from prepare_row_effect[OF P] have a4: "attempts st4 = attempts st" by simp
  show ?thesis
  proof (cases r)
    case (Inl e)
    with assms True P have "st' = st4" by (auto simp: process_row_def)
    with a4 have "attempts st' = attempts st @ []
      \<and> (\<forall>a \<in> set []. \<exists>n. outputfile (at_call a) =
            candidate_path [] (frame (at_call a))
              (strftime_run (now (hst (snd (prepare_row ev pre_check row_id rp st))))) n)" by simp
    then show ?thesis by (intro exI[where x = "[]"])
  next
    case (Inr p)
    obtain o5 st5 where F: "render_frames ev pre_check (p_camera p) (p_resolution p) (p_pixel_aspect p) (p_exr p)
        (p_png p) (strftime_run (now (hst st4))) (length (p_frames p)) 0 (p_frames p) st4 = (o5, st5)" by force
    from render_frames_names[OF F] a4 obtain new where new: "attempts st5 = attempts st @ new"
      "\<forall>a \<in> set new. \<exists>n. outputfile (at_call a) =
          candidate_path (p_exr p) (frame (at_call a)) (strftime_run (now (hst st4))) n" by auto
    from assms True P Inr F have "attempts st' = attempts st5"
      by (cases o5) (auto simp: process_row_def Let_def log_call_def split: if_splits)
    with new P have "attempts st' = attempts st @ new
      \<and> (\<forall>a \<in> set new. \<exists>n. outputfile (at_call a) =
            candidate_path (p_exr p) (frame (at_call a))
              (strftime_run (now (hst (snd (prepare_row ev pre_check row_id rp st))))) n)" by simp
    then show ?thesis by (intro exI)
  qed
qed

text \<open>
  An entry of two frames on the host whose render takes a second of the clock:
  both files carry the timestamp of the moment the entry was prepared.
\<close>

theorem entry_frames_share_timestamp_witness:
  "strftime_run (now (hst (snd (prepare_row (demo_env render_tick) False 0
       (demo_row ''a'' ''id-1'' ''1:2'' ''Default'') (initial_state (demo_host out_dir)))))) = ''24-01-01T00.00.00''
   \<and> map (\<lambda>a. outputfile (at_call a))
     (attempts (snd (process_row (demo_env render_tick) False 0 (demo_row ''a'' ''id-1'' ''1:2'' ''Default'')
                       (initial_state (demo_host out_dir))))) =
     [win_path [''C:'', ''out'', ''a_0001_24-01-01T00.00.00.exr''],
      win_path [''C:'', ''out'', ''a_0002_24-01-01T00.00.00.exr'']]
   \<and> (\<exists>output_path.
         \<forall>a \<in> set (attempts (snd (process_row (demo_env render_tick) False 0
                                      (demo_row ''a'' ''id-1'' ''1:2'' ''Default'')
                                      (initial_state (demo_host out_dir))))).
           \<exists>n. outputfile (at_call a) = candidate_path output_path (frame (at_call a)) ''24-01-01T00.00.00'' n)"
proof -
  let ?X = "process_row (demo_env render_tick) False 0 (demo_row ''a'' ''id-1'' ''1:2'' ''Default'')
              (initial_state (demo_host out_dir))"
  have X: "?X = (fst ?X, snd ?X)" by (rule prod.collapse[symmetric])
  have ts: "strftime_run (now (hst (snd (prepare_row (demo_env render_tick) False 0
       (demo_row ''a'' ''id-1'' ''1:2'' ''Default'') (initial_state (demo_host out_dir)))))) = ''24-01-01T00.00.00''"
    by code_simp
  have files: "map (\<lambda>a. outputfile (at_call a)) (attempts (snd ?X)) =
     [win_path [''C:'', ''out'', ''a_0001_24-01-01T00.00.00.exr''],
      win_path [''C:'', ''out'', ''a_0002_24-01-01T00.00.00.exr'']]"
    by code_simp
  have a0: "attempts (initial_state (demo_host out_dir)) = []" unfolding initial_state_def by simp
  from entry_frames_share_timestamp[OF X] obtain output_path new where new:
    "attempts (snd ?X) = attempts (initial_state (demo_host out_dir)) @ new"
    "\<forall>a \<in> set new. \<exists>n. outputfile (at_call a) =
        candidate_path output_path (frame (at_call a))
          (strftime_run (now (hst (snd (prepare_row (demo_env render_tick) False 0
             (demo_row ''a'' ''id-1'' ''1:2'' ''Default'') (initial_state (demo_host out_dir))))))) n"
    by blast
  from new(1) have "attempts (snd ?X) = new" unfolding a0 by (simp only: append_Nil)
  with new(2) have "\<forall>a \<in> set (attempts (snd ?X)). \<exists>n. outputfile (at_call a) =
      candidate_path output_path (frame (at_call a)) ''24-01-01T00.00.00'' n"
    unfolding ts by (simp only:)
  then have ex: "\<exists>output_path. \<forall>a \<in> set (attempts (snd ?X)). \<exists>n. outputfile (at_call a) =
      candidate_path output_path (frame (at_call a)) ''24-01-01T00.00.00'' n"
    by (rule exI[where x = output_path])
  show ?thesis by (rule conjI[OF ts conjI[OF files ex]])
qed

end
